theory Spec2Isabelle
  imports Complex_Main "HOL-Library.Word"
begin

section \<open>Data model\<close>

text \<open>
  The cart is what \<^verbatim>\<open>JSON.parse\<close> returns for the text kept under the key
  \<^verbatim>\<open>kodijongCart\<close>: an array of objects. A field that the code converts with
  \<^verbatim>\<open>parseInt\<close> is a scalar JSON value, or \<^verbatim>\<open>undefined\<close> when the field is
  missing; a price is a number or missing, a name is a string or missing. A number of the
  JSON text is carried as the rational its literal denotes; the value the program gets from
  it is the nearest double (\<open>fl\<close> below). Strings are carried as the bytes of their UTF-8
  encoding.
\<close>

datatype jsval = JUndefined | JNull | JBool bool | JNum rat | JStr string

text \<open>A number of the program: a finite double by its exact value, an infinity or
  \<^verbatim>\<open>NaN\<close>.\<close>

datatype number = Fin rat | PInf | NInf | NaN

text \<open>An element of \<^verbatim>\<open>item.extras\<close> or \<^verbatim>\<open>item.drinks\<close>: the
  formatters read \<^verbatim>\<open>name\<close> and \<^verbatim>\<open>quantity\<close> only.\<close>

record extra =
  extra_name :: "string option"
  extra_quantity :: jsval

text \<open>A cart entry. \<open>None\<close> is a missing field; for \<^verbatim>\<open>options\<close> and
  \<^verbatim>\<open>image\<close> also a field that is not a string, for \<^verbatim>\<open>extras\<close> and
  \<^verbatim>\<open>drinks\<close> also a field that is not an array.\<close>

record cart_item =
  name :: "string option"
  basePrice :: "rat option"
  quantity :: jsval
  options :: "string option"
  extras :: "extra list option"
  drinks :: "extra list option"
  image_src :: "string option"

text \<open>A value handed to \<^verbatim>\<open>saveCart\<close> or produced by \<^verbatim>\<open>JSON.parse\<close>:
  an array of entries, or anything else.\<close>

datatype jsvalue = Array "cart_item list" | Other jsval

text \<open>The text of a storage item, by what \<^verbatim>\<open>JSON.parse\<close> makes of it.\<close>

datatype item_text = EmptyText | BadText | JsonText jsvalue

datatype error = StorageError | SyntaxError

text \<open>An element that shows the cart count.\<close>

record count_el =
  textContent :: string
  is_badge :: bool
  display :: string

datatype timer = NotificationTimer | CountTimer

text \<open>The page: browser storage, the fields of \<^verbatim>\<open>CartManager\<close>, the console
  and the parts of the document the code reads and writes. An element that the document
  does not have is \<open>None\<close>.\<close>

record page =
  ls_item :: "item_text option"
  ls_getItem_throws :: bool
  ls_setItem_throws :: bool
  cartCache :: "cart_item list option"
  cartCacheTime :: int
  console_errors :: "string list"
  notificationQueue :: "(string \<times> string) list"
  notificationShowing :: bool
  notification_el :: "(string \<times> string \<times> string) option"
  timers :: "timer list"
  updateTimeout :: bool
  pendingUpdate :: bool
  count_els :: "count_el list"
  customer_name :: "string option"
  customer_phone :: "string option"
  special_instructions :: "string option"
  orderList :: "(string \<times> string) list option"
  orderList_listeners :: nat
  totalPriceElement :: "string option"
  opened :: "string list"

section \<open>Strings\<close>

text \<open>
  The white space of \<^verbatim>\<open>\s\<close> and of \<^verbatim>\<open>trim\<close>: TAB, LF, VT, FF, CR, SP,
  U+00A0, U+1680, U+2000 to U+200A, U+2028, U+2029, U+202F, U+205F, U+3000 and U+FEFF, each
  as its UTF-8 bytes.
\<close>

definition ws_chars :: "string list" where
  "ws_chars =
     [[CHR 0x09], [CHR 0x0A], [CHR 0x0B], [CHR 0x0C], [CHR 0x0D], [CHR 0x20],
      [CHR 0xC2, CHR 0xA0], [CHR 0xE1, CHR 0x9A, CHR 0x80],
      [CHR 0xE2, CHR 0x80, CHR 0x80], [CHR 0xE2, CHR 0x80, CHR 0x81],
      [CHR 0xE2, CHR 0x80, CHR 0x82], [CHR 0xE2, CHR 0x80, CHR 0x83],
      [CHR 0xE2, CHR 0x80, CHR 0x84], [CHR 0xE2, CHR 0x80, CHR 0x85],
      [CHR 0xE2, CHR 0x80, CHR 0x86], [CHR 0xE2, CHR 0x80, CHR 0x87],
      [CHR 0xE2, CHR 0x80, CHR 0x88], [CHR 0xE2, CHR 0x80, CHR 0x89],
      [CHR 0xE2, CHR 0x80, CHR 0x8A], [CHR 0xE2, CHR 0x80, CHR 0xA8],
      [CHR 0xE2, CHR 0x80, CHR 0xA9], [CHR 0xE2, CHR 0x80, CHR 0xAF],
      [CHR 0xE2, CHR 0x81, CHR 0x9F], [CHR 0xE3, CHR 0x80, CHR 0x80],
      [CHR 0xEF, CHR 0xBB, CHR 0xBF]]"

definition startsWith :: "string \<Rightarrow> string \<Rightarrow> bool" where
  "startsWith s p = (take (length p) s = p)"

text \<open>The number of bytes of the first of \<open>ws\<close> that \<open>s\<close> starts with, 0 when there is none.\<close>

definition match_len :: "string list \<Rightarrow> string \<Rightarrow> nat" where
  "match_len ws s = (case find (startsWith s) ws of None \<Rightarrow> 0 | Some w \<Rightarrow> length w)"

fun strip_leading :: "string list \<Rightarrow> string \<Rightarrow> string" where
  "strip_leading ws [] = []"
| "strip_leading ws (c # cs) =
     (case match_len ws (c # cs) of
        0 \<Rightarrow> c # cs
      | Suc k \<Rightarrow> strip_leading ws (drop k cs))"

definition trimStart :: "string \<Rightarrow> string" where
  "trimStart s = strip_leading ws_chars s"

definition trim :: "string \<Rightarrow> string" where
  "trim s = rev (strip_leading (map rev ws_chars) (rev (trimStart s)))"

text \<open>\<^verbatim>\<open>s.replace(/\s/g, '')\<close>\<close>

fun remove_ws :: "string \<Rightarrow> string" where
  "remove_ws [] = []"
| "remove_ws (c # cs) =
     (case match_len ws_chars (c # cs) of
        0 \<Rightarrow> c # remove_ws cs
      | Suc k \<Rightarrow> remove_ws (drop k cs))"

text \<open>\<^verbatim>\<open>s.replace(/[...]/g, '')\<close> for a class of ASCII characters.\<close>

definition remove_chars :: "string \<Rightarrow> string \<Rightarrow> string" where
  "remove_chars cls s = filter (\<lambda>c. c \<notin> set cls) s"

definition markup_chars :: string where
  "markup_chars = [CHR ''*'', CHR ''_'', CHR ''~'', CHR 0x60]"

definition angle_chars :: string where
  "angle_chars = [CHR ''<'', CHR ''>'']"

text \<open>\<^verbatim>\<open>s.replace(/"/g, '&quot;')\<close>\<close>

definition escape_quotes :: "string \<Rightarrow> string" where
  "escape_quotes s = concat (map (\<lambda>c. if c = CHR 0x22 then ''&quot;'' else [c]) s)"

text \<open>\<^verbatim>\<open>s.replace(p, r)\<close> for a string pattern: the first occurrence only.\<close>

fun replace_first :: "string \<Rightarrow> string \<Rightarrow> string \<Rightarrow> string" where
  "replace_first p r [] = (if p = [] then r else [])"
| "replace_first p r (c # cs) =
     (if startsWith (c # cs) p then r @ drop (length p) (c # cs)
      else c # replace_first p r cs)"

text \<open>\<^verbatim>\<open>s.replace(/^p/, r)\<close> for a literal \<open>p\<close>.\<close>

definition replace_prefix :: "string \<Rightarrow> string \<Rightarrow> string \<Rightarrow> string" where
  "replace_prefix p r s = (if startsWith s p then r @ drop (length p) s else s)"

text \<open>\<^verbatim>\<open>s.split(' | ')\<close>, with the piece collected so far in \<open>acc\<close> (reversed).\<close>

fun split_bar :: "string \<Rightarrow> string \<Rightarrow> string list" where
  "split_bar acc [] = [rev acc]"
| "split_bar acc (c # cs) =
     (if startsWith (c # cs) '' | '' then rev acc # split_bar [] (drop 2 cs)
      else split_bar (c # acc) cs)"

definition join :: "string \<Rightarrow> string list \<Rightarrow> string" where
  "join sep xs = (case xs of [] \<Rightarrow> [] | x # rest \<Rightarrow> foldl (\<lambda>a y. a @ sep @ y) x rest)"

definition NL :: string where
  "NL = [CHR 0x0A]"

definition DQ :: string where
  "DQ = [CHR 0x22]"

section \<open>Numbers\<close>

definition digit_char :: "int \<Rightarrow> char" where
  "digit_char d = char_of (48 + d)"

text \<open>The decimal digits of an integer that is not negative.\<close>

function show_nat :: "int \<Rightarrow> string" where
  "show_nat n = (if n < 10 then [digit_char n] else show_nat (n div 10) @ [digit_char (n mod 10)])"
  by pat_completeness auto
termination
  by (relation "measure nat") auto

declare show_nat.simps [simp del]

text \<open>The decimal text of an integer, as a template literal renders it.\<close>

definition show_int :: "int \<Rightarrow> string" where
  "show_int i = (if i < 0 then ''-'' @ show_nat (- i) else show_nat i)"

subsection \<open>Doubles\<close>

text \<open>The number of binary digits of a positive integer.\<close>

function bit_length :: "int \<Rightarrow> int" where
  "bit_length n = (if n \<le> 0 then 0 else 1 + bit_length (n div 2))"
  by pat_completeness auto
termination
  by (relation "measure nat") auto

declare bit_length.simps [simp del]

definition pow2 :: "int \<Rightarrow> rat" where
  "pow2 e = (if 0 \<le> e then of_int (2 ^ nat e) else 1 / of_int (2 ^ nat (- e)))"

definition pow10 :: "int \<Rightarrow> rat" where
  "pow10 e = (if 0 \<le> e then of_int (10 ^ nat e) else 1 / of_int (10 ^ nat (- e)))"

text \<open>The integer part of the binary logarithm of a positive rational.\<close>

definition ilog2 :: "rat \<Rightarrow> int" where
  "ilog2 a =
     (let d = bit_length (fst (quotient_of a)) - bit_length (snd (quotient_of a))
      in if pow2 d \<le> a then d else d - 1)"

text \<open>The nearest integer, the even one of two that are equally near.\<close>

definition round_even :: "rat \<Rightarrow> int" where
  "round_even y =
     (let f = \<lfloor>y\<rfloor>; r = y - of_int f
      in if r < 1 / 2 then f else if 1 / 2 < r then f + 1 else if even f then f else f + 1)"

text \<open>
  The double nearest to a rational (IEEE 754 binary64, round to nearest, ties to even): a
  significand \<open>m\<close> of at most 53 bits at the exponent \<open>e\<close>, which is not below that of the
  subnormal numbers; a result whose binary exponent reaches 1024 is an infinity. The sign of
  a zero is not kept: no text the program builds shows it.
\<close>

definition fl :: "rat \<Rightarrow> number" where
  "fl x =
     (if x = 0 then Fin 0
      else (let a = \<bar>x\<bar>;
                e = max (ilog2 a - 52) (- 1074);
                m = round_even (a / pow2 e);
                r = of_int m * pow2 e
            in if 1024 \<le> e + bit_length m - 1 then (if x < 0 then NInf else PInf)
               else Fin (if x < 0 then - r else r)))"

definition num_of_int :: "int \<Rightarrow> number" where
  "num_of_int i = fl (of_int i)"

text \<open>\<open>a * b\<close> and \<open>a + b\<close> on numbers of the program.\<close>

fun num_mul :: "number \<Rightarrow> number \<Rightarrow> number" where
  "num_mul (Fin a) (Fin b) = fl (a * b)"
| "num_mul NaN b = NaN"
| "num_mul a NaN = NaN"
| "num_mul (Fin a) PInf = (if a = 0 then NaN else if 0 < a then PInf else NInf)"
| "num_mul (Fin a) NInf = (if a = 0 then NaN else if 0 < a then NInf else PInf)"
| "num_mul PInf (Fin b) = (if b = 0 then NaN else if 0 < b then PInf else NInf)"
| "num_mul NInf (Fin b) = (if b = 0 then NaN else if 0 < b then NInf else PInf)"
| "num_mul PInf PInf = PInf"
| "num_mul PInf NInf = NInf"
| "num_mul NInf PInf = NInf"
| "num_mul NInf NInf = PInf"

fun num_add :: "number \<Rightarrow> number \<Rightarrow> number" where
  "num_add (Fin a) (Fin b) = fl (a + b)"
| "num_add NaN b = NaN"
| "num_add a NaN = NaN"
| "num_add PInf NInf = NaN"
| "num_add NInf PInf = NaN"
| "num_add PInf b = PInf"
| "num_add NInf b = NInf"
| "num_add (Fin a) b = b"

subsection \<open>The decimal text of a double\<close>

text \<open>A first guess \<open>g\<close> at the decimal exponent of a positive rational \<open>x\<close>: \<open>x\<close> has \<open>g\<close> or
  \<open>g + 1\<close> digits before the point (none, and zeros after the point, when that is 0 or less).\<close>

definition decimal_size :: "rat \<Rightarrow> int" where
  "decimal_size x =
     (if 1 \<le> x then int (length (show_nat \<lfloor>x\<rfloor>))
      else 1 - int (length (show_nat \<lfloor>1 / x\<rfloor>)))"

text \<open>
  The decimal numbers \<open>s \<times> 10^(n-k)\<close> of \<open>k\<close> digits (\<open>10^(k-1) \<le> s < 10^k\<close>) that the positive
  double \<open>x\<close> is the nearest double to, as pairs \<open>(s, n)\<close>.
\<close>

definition decimal_candidates :: "rat \<Rightarrow> nat \<Rightarrow> (int \<times> int) list" where
  "decimal_candidates x k =
     concat (map (\<lambda>n. let u = pow10 (n - int k);
                          s0 = \<lfloor>x / u\<rfloor>
                      in map (\<lambda>s. (s, n))
                           (filter (\<lambda>s. 10 ^ (k - 1) \<le> s \<and> s < 10 ^ k \<and> fl (of_int s * u) = Fin x)
                              [s0, s0 + 1]))
               (let g = decimal_size x in [g, g + 1, g + 2]))"

definition decimal_distance :: "rat \<Rightarrow> nat \<Rightarrow> int \<times> int \<Rightarrow> rat" where
  "decimal_distance x k c = \<bar>of_int (fst c) * pow10 (snd c - int k) - x\<bar>"

text \<open>The one nearest to \<open>x\<close>, with an even \<open>s\<close> when two are equally near.\<close>

definition decimal_closest :: "rat \<Rightarrow> nat \<Rightarrow> int \<times> int \<Rightarrow> (int \<times> int) list \<Rightarrow> int \<times> int" where
  "decimal_closest x k c0 cs =
     foldl (\<lambda>best c. if decimal_distance x k c < decimal_distance x k best \<or>
                          (decimal_distance x k c = decimal_distance x k best \<and> even (fst c))
                       then c else best) c0 cs"

text \<open>
  The digits \<open>s\<close> and the exponent \<open>n\<close> of \<^verbatim>\<open>Number::toString\<close> for a positive double: as
  few digits as give the double back, and of those the nearest. Seventeen digits always do.
\<close>

definition shortest_decimal :: "rat \<Rightarrow> (int \<times> int) option" where
  "shortest_decimal x =
     (case find (\<lambda>k. decimal_candidates x k \<noteq> []) [1 ..< 18] of
        None \<Rightarrow> None
      | Some k \<Rightarrow>
          (case decimal_candidates x k of
             [] \<Rightarrow> None
           | c # cs \<Rightarrow> Some (decimal_closest x k c cs)))"

text \<open>The text of a positive double in exponent notation, which \<^verbatim>\<open>Number::toString\<close>
  gives from \<open>10^21\<close> on and below \<open>10^-6\<close>.\<close>

definition exponent_text :: "rat \<Rightarrow> string" where
  "exponent_text x =
     (case shortest_decimal x of
        None \<Rightarrow> []
      | Some c \<Rightarrow>
          (let ds = show_nat (fst c)
           in (if length ds = 1 then ds else take 1 ds @ ''.'' @ drop 1 ds) @
              (if snd c - 1 < 0 then ''e-'' @ show_nat (1 - snd c)
               else ''e+'' @ show_nat (snd c - 1))))"

text \<open>
  \<^verbatim>\<open>x.toFixed(2)\<close>. After the sign is taken off: from \<open>10^21\<close> on the text of the number
  itself, in exponent notation; below, the nearest multiple of 1/100, the larger of two that
  are equally near.
\<close>

definition toFixed2 :: "number \<Rightarrow> string" where
  "toFixed2 v =
     (case v of
        NaN \<Rightarrow> ''NaN''
      | PInf \<Rightarrow> ''Infinity''
      | NInf \<Rightarrow> ''-Infinity''
      | Fin x \<Rightarrow>
          (if x < 0 then ''-'' else []) @
          (if 10 ^ 21 \<le> \<bar>x\<bar> then exponent_text \<bar>x\<bar>
           else (let n = \<lfloor>\<bar>x\<bar> * 100 + 1 / 2\<rfloor>
                 in show_nat (n div 100) @ ''.'' @
                    [digit_char (n mod 100 div 10), digit_char (n mod 10)])))"

subsection \<open>Parsing\<close>

definition digit_val :: "char \<Rightarrow> nat option" where
  "digit_val c =
     (let n = (of_char c :: nat)
      in if 48 \<le> n \<and> n \<le> 57 then Some (n - 48)
         else if 97 \<le> n \<and> n \<le> 122 then Some (n - 87)
         else if 65 \<le> n \<and> n \<le> 90 then Some (n - 55)
         else None)"

definition is_digit_in :: "nat \<Rightarrow> char \<Rightarrow> bool" where
  "is_digit_in R c = (case digit_val c of None \<Rightarrow> False | Some d \<Rightarrow> d < R)"

definition digits_value :: "nat \<Rightarrow> string \<Rightarrow> nat" where
  "digits_value R ds = foldl (\<lambda>a c. a * R + (case digit_val c of None \<Rightarrow> 0 | Some d \<Rightarrow> d)) 0 ds"

text \<open>\<^verbatim>\<open>parseInt(string, radix)\<close>; \<open>None\<close> as radix is \<^verbatim>\<open>undefined\<close>, \<open>None\<close>
  as result is \<^verbatim>\<open>NaN\<close>.\<close>

definition parseInt_str :: "nat option \<Rightarrow> string \<Rightarrow> int option" where
  "parseInt_str radix inputString =
     (let s1 = trimStart inputString;
          sign = (if startsWith s1 ''-'' \<and> s1 \<noteq> [] then - 1 else (1 :: int));
          s2 = (if s1 \<noteq> [] \<and> (startsWith s1 ''-'' \<or> startsWith s1 ''+'') then drop 1 s1 else s1);
          R0 = (case radix of None \<Rightarrow> 0 | Some r \<Rightarrow> r)
      in if R0 \<noteq> 0 \<and> (R0 < 2 \<or> 36 < R0) then None
         else
           (let stripPrefix = (R0 = 0 \<or> R0 = 16);
                R1 = (if R0 = 0 then 10 else R0);
                hex = (stripPrefix \<and> (startsWith s2 ''0x'' \<or> startsWith s2 ''0X''));
                R = (if hex then 16 else R1);
                s3 = (if hex then drop 2 s2 else s2);
                ds = takeWhile (is_digit_in R) s3
            in if ds = [] then None else Some (sign * int (digits_value R ds))))"

function lead_digit :: "int \<Rightarrow> int" where
  "lead_digit n = (if n < 10 then n else lead_digit (n div 10))"
  by pat_completeness auto
termination
  by (relation "measure nat") auto

declare lead_digit.simps [simp del]

text \<open>
  \<^verbatim>\<open>parseInt(x)\<close> for a finite double: the digits before the point of its decimal text.
  The text is positional for \<open>x = 0\<close> and for \<open>10^-6 \<le> |x| < 10^21\<close>, and the digits before
  its point denote the double \<open>x\<close> truncated toward zero; otherwise it is in exponent
  notation, which gives the signed first digit of the text.
\<close>

definition parseInt_num :: "rat \<Rightarrow> int" where
  "parseInt_num x =
     (if x = 0 \<or> (1 / 10 ^ 6 \<le> \<bar>x\<bar> \<and> \<bar>x\<bar> < 10 ^ 21)
      then (if x < 0 then - \<lfloor>- x\<rfloor> else \<lfloor>x\<rfloor>)
      else (if x < 0 then - 1 else 1) *
           (case shortest_decimal \<bar>x\<bar> of None \<Rightarrow> 0 | Some c \<Rightarrow> lead_digit (fst c)))"

text \<open>\<^verbatim>\<open>parseInt(v)\<close>: the value is converted to its text first. The text of an infinity
  has no digit.\<close>

fun parseInt :: "jsval \<Rightarrow> int option" where
  "parseInt (JNum x) = (case fl x of Fin d \<Rightarrow> Some (parseInt_num d) | _ \<Rightarrow> None)"
| "parseInt (JStr s) = parseInt_str None s"
| "parseInt JUndefined = parseInt_str None ''undefined''"
| "parseInt JNull = parseInt_str None ''null''"
| "parseInt (JBool b) = parseInt_str None (if b then ''true'' else ''false'')"

text \<open>\<^verbatim>\<open>parseFloat(x)\<close> for a number or a missing field.\<close>

fun parseFloat :: "rat option \<Rightarrow> number" where
  "parseFloat None = NaN"
| "parseFloat (Some x) = fl x"

text \<open>\<^verbatim>\<open>x || d\<close> for a number \<open>x\<close>: \<^verbatim>\<open>NaN\<close> and 0 are falsy.\<close>

definition or_int :: "int option \<Rightarrow> int \<Rightarrow> int" where
  "or_int x d = (case x of None \<Rightarrow> d | Some v \<Rightarrow> if v = 0 then d else v)"

definition or_num :: "number \<Rightarrow> number \<Rightarrow> number" where
  "or_num x d = (case x of NaN \<Rightarrow> d | Fin v \<Rightarrow> if v = 0 then d else x | _ \<Rightarrow> x)"

text \<open>\<^verbatim>\<open>String(x || '')\<close> for a string or a missing field.\<close>

definition String_or_empty :: "string option \<Rightarrow> string" where
  "String_or_empty x = (case x of None \<Rightarrow> [] | Some s \<Rightarrow> s)"

section \<open>Persistent cart store\<close>

definition CACHE_DURATION :: int where
  "CACHE_DURATION = 1000"

definition console_error :: "string \<Rightarrow> page \<Rightarrow> page" where
  "console_error msg s = s\<lparr>console_errors := console_errors s @ [msg]\<rparr>"

definition getItem :: "page \<Rightarrow> error + item_text option" where
  "getItem s = (if ls_getItem_throws s then Inl StorageError else Inr (ls_item s))"

fun JSON_parse :: "item_text \<Rightarrow> error + jsvalue" where
  "JSON_parse (JsonText v) = Inr v"
| "JSON_parse BadText = Inl SyntaxError"
| "JSON_parse EmptyText = Inl SyntaxError"

definition cache_fresh :: "int \<Rightarrow> page \<Rightarrow> bool" where
  "cache_fresh now s = (cartCache s \<noteq> None \<and> now - cartCacheTime s < CACHE_DURATION)"

text \<open>The body of the \<^verbatim>\<open>try\<close> block of \<^verbatim>\<open>getCart\<close>.\<close>

definition readCart :: "page \<Rightarrow> error + cart_item list" where
  "readCart s =
     (case getItem s of
        Inl e \<Rightarrow> Inl e
      | Inr cartData \<Rightarrow>
          (case (case cartData of
                   None \<Rightarrow> Inr (Array [])
                 | Some EmptyText \<Rightarrow> Inr (Array [])
                 | Some t \<Rightarrow> JSON_parse t) of
             Inl e \<Rightarrow> Inl e
           | Inr (Array cart) \<Rightarrow> Inr cart
           | Inr (Other v) \<Rightarrow> Inr []))"

definition getCart :: "int \<Rightarrow> page \<Rightarrow> cart_item list \<times> page" where
  "getCart now s =
     (case (if cache_fresh now s then cartCache s else None) of
        Some cached \<Rightarrow> (cached, s)
      | None \<Rightarrow>
          (case readCart s of
             Inr cart \<Rightarrow> (cart, s\<lparr>cartCache := Some cart, cartCacheTime := now\<rparr>)
           | Inl e \<Rightarrow> ([], console_error ''Error reading cart:'' s)))"

definition setItem :: "item_text \<Rightarrow> page \<Rightarrow> error + page" where
  "setItem t s = (if ls_setItem_throws s then Inl StorageError else Inr (s\<lparr>ls_item := Some t\<rparr>))"

text \<open>\<^verbatim>\<open>JSON.stringify\<close> of an array of entries gives a text that parses to the
  same entries.\<close>

definition JSON_stringify :: "cart_item list \<Rightarrow> item_text" where
  "JSON_stringify cart = JsonText (Array cart)"

definition saveCart :: "jsvalue \<Rightarrow> int \<Rightarrow> page \<Rightarrow> bool \<times> page" where
  "saveCart v now s =
     (case v of
        Other x \<Rightarrow> (False, console_error ''Attempted to save non-array cart'' s)
      | Array cart \<Rightarrow>
          (case setItem (JSON_stringify cart) s of
             Inr s' \<Rightarrow> (True, s'\<lparr>cartCache := Some cart, cartCacheTime := now\<rparr>)
           | Inl e \<Rightarrow> (False, console_error ''Error saving cart:'' s)))"

section \<open>Notification queue\<close>

text \<open>The notification element in the document: its class, the class of its icon and its
  text.\<close>

definition showNextNotification :: "page \<Rightarrow> page" where
  "showNextNotification s =
     (case notificationQueue s of
        [] \<Rightarrow> s\<lparr>notificationShowing := False\<rparr>
      | (message, type) # rest \<Rightarrow>
          s\<lparr>notificationShowing := True,
            notificationQueue := rest,
            notification_el :=
              Some (''notification notification-'' @ type,
                    ''fas '' @ (if type = ''success'' then ''fa-check-circle''
                                else if type = ''error'' then ''fa-exclamation-circle''
                                else ''fa-info-circle''),
                    remove_chars angle_chars message),
            timers := timers s @ [NotificationTimer]\<rparr>)"

definition showNotification :: "string \<Rightarrow> string \<Rightarrow> page \<Rightarrow> page" where
  "showNotification message type s =
     (let s1 = s\<lparr>notificationQueue := notificationQueue s @ [(message, type)]\<rparr>
      in if \<not> notificationShowing s1 then showNextNotification s1 else s1)"

text \<open>The part of the page that the notification queue reads and writes.\<close>

definition notifications ::
  "page \<Rightarrow> (string \<times> string) list \<times> bool \<times> (string \<times> string \<times> string) option \<times> timer list" where
  "notifications s = (notificationQueue s, notificationShowing s, notification_el s, timers s)"

text \<open>The two nested timeouts of \<^verbatim>\<open>_showNextNotification\<close>, 3000 ms and 300 ms, once
  both have passed.\<close>

definition notificationTimerFired :: "page \<Rightarrow> page" where
  "notificationTimerFired s = showNextNotification (s\<lparr>notification_el := None\<rparr>)"

section \<open>Cart count\<close>

definition count_quantity :: "cart_item \<Rightarrow> int" where
  "count_quantity item =
     (let quantity' = or_int (parseInt (quantity item)) 0
      in if quantity' > 0 then quantity' else 0)"

definition totalItems :: "cart_item list \<Rightarrow> int" where
  "totalItems cart = foldl (\<lambda>sum item. sum + count_quantity item) 0 cart"

definition update_count_el :: "int \<Rightarrow> count_el \<Rightarrow> count_el" where
  "update_count_el count el =
     (let currentCount = or_int (parseInt_str None (textContent el)) 0
      in if currentCount \<noteq> count
         then el\<lparr>textContent := show_int count,
                 display := (if is_badge el then (if count > 0 then ''flex'' else ''none'')
                             else display el)\<rparr>
         else el)"

definition updateCartCountImmediate :: "int \<Rightarrow> page \<Rightarrow> page" where
  "updateCartCountImmediate now s =
     (let (cart, s1) = getCart now s
      in s1\<lparr>count_els := map (update_count_el (totalItems cart)) (count_els s1)\<rparr>)"

definition updateCartCount :: "page \<Rightarrow> page" where
  "updateCartCount s =
     (if updateTimeout s then s\<lparr>pendingUpdate := True\<rparr>
      else s\<lparr>updateTimeout := True, timers := timers s @ [CountTimer]\<rparr>)"

text \<open>The callback that \<^verbatim>\<open>updateCartCount\<close> schedules.\<close>

definition countTimerFired :: "int \<Rightarrow> page \<Rightarrow> page" where
  "countTimerFired now s =
     (let s1 = s\<lparr>updateTimeout := False\<rparr>
      in if pendingUpdate s1 then updateCartCountImmediate now (s1\<lparr>pendingUpdate := False\<rparr>)
         else s1)"

section \<open>Symbols of the templates\<close>

text \<open>The symbols in front of the lines of the templates, as the bytes of the source file.\<close>

definition sym_greens :: string where
  "sym_greens = [CHR 0xEF, CHR 0xA3, CHR 0xBF, CHR 0xC3, CHR 0xBC, CHR 0xE2, CHR 0x80, CHR 0xA2, CHR 0xC2, CHR 0xA8]"

definition sym_sauces :: string where
  "sym_sauces = [CHR 0xEF, CHR 0xA3, CHR 0xBF, CHR 0xC3, CHR 0xBC, CHR 0xC3, CHR 0xA7, CHR 0xE2, CHR 0x88, CHR 0x82]"

definition sym_extras :: string where
  "sym_extras = [CHR 0xEF, CHR 0xA3, CHR 0xBF, CHR 0xC3, CHR 0xBC, CHR 0xC3, CHR 0xAC, CHR 0xC2, CHR 0xB6]"

definition sym_plus :: string where
  "sym_plus = [CHR 0xE2, CHR 0x80, CHR 0x9A, CHR 0xC3, CHR 0xBB, CHR 0xC3, CHR 0xAF]"

definition sym_drinks :: string where
  "sym_drinks = [CHR 0xEF, CHR 0xA3, CHR 0xBF, CHR 0xC3, CHR 0xBC, CHR 0xE2, CHR 0x80, CHR 0xA2, CHR 0xC2, CHR 0xA7]"

definition sym_person :: string where
  "sym_person = [CHR 0xEF, CHR 0xA3, CHR 0xBF, CHR 0xC3, CHR 0xBC, CHR 0xC3, CHR 0xAB, CHR 0xC2, CHR 0xA7]"

definition sym_phone :: string where
  "sym_phone = [CHR 0xEF, CHR 0xA3, CHR 0xBF, CHR 0xC3, CHR 0xBC, CHR 0xC3, CHR 0xAC, CHR 0xC3, CHR 0xBB]"

definition sym_money :: string where
  "sym_money = [CHR 0xEF, CHR 0xA3, CHR 0xBF, CHR 0xC3, CHR 0xBC, CHR 0xC3, CHR 0xAD, CHR 0xE2, CHR 0x88, CHR 0x9E]"

definition sym_clock :: string where
  "sym_clock = [CHR 0xE2, CHR 0x80, CHR 0x9A, CHR 0xC3, CHR 0xA8, CHR 0xE2, CHR 0x88, CHR 0x9E]"

definition sym_note :: string where
  "sym_note = [CHR 0xEF, CHR 0xA3, CHR 0xBF, CHR 0xC3, CHR 0xBC, CHR 0xC3, CHR 0xAC, CHR 0xC3, CHR 0xB9]"

definition sym_pin :: string where
  "sym_pin = [CHR 0xEF, CHR 0xA3, CHR 0xBF, CHR 0xC3, CHR 0xBC, CHR 0xC3, CHR 0xAC, CHR 0xC3, CHR 0xA7]"

definition sym_check :: string where
  "sym_check = [CHR 0xE2, CHR 0x80, CHR 0x9A, CHR 0xC3, CHR 0xBA, CHR 0xC3, CHR 0x96]"

definition divider_unit :: string where
  "divider_unit = [CHR 0xE2, CHR 0x80, CHR 0x9A, CHR 0xC3, CHR 0xAE, CHR 0xC3, CHR 0x84]"

definition divider :: string where
  "divider = concat (replicate 20 divider_unit)"

section \<open>Cart formatter\<close>

definition extra_qty :: "extra \<Rightarrow> int" where
  "extra_qty x = or_int (parseInt (extra_quantity x)) 0"

text \<open>The value of a piece of the options string: what follows the key, trimmed.\<close>

definition option_value :: "string \<Rightarrow> string \<Rightarrow> string" where
  "option_value key opt = trim (replace_first key [] opt)"

definition or_not_specified :: "string \<Rightarrow> string" where
  "or_not_specified v = (if v = [] then ''Not specified'' else v)"

definition option_item_html :: "string \<Rightarrow> string" where
  "option_item_html body = ''<div class='' @ DQ @ ''cart-option-item'' @ DQ @ ''>'' @ body @ ''</div>''"

definition sub_option_html :: "string \<Rightarrow> string" where
  "sub_option_html body = ''<div class='' @ DQ @ ''cart-sub-option'' @ DQ @ ''>'' @ body @ ''</div>''"

text \<open>The fragments pushed for one piece of the options string.\<close>

definition display_option :: "string \<Rightarrow> string list" where
  "display_option opt =
     (if startsWith opt ''Greens:''
      then [option_item_html (sym_greens @ '' '' @ or_not_specified (option_value ''Greens:'' opt))]
      else if startsWith opt ''Sauces:''
      then [option_item_html (sym_sauces @ '' '' @ or_not_specified (option_value ''Sauces:'' opt))]
      else [])"

text \<open>One round of the loop over \<^verbatim>\<open>item.extras\<close>, on the pair of
  \<^verbatim>\<open>hasExtras\<close> and \<^verbatim>\<open>extrasHtml\<close>; the loop over the drinks is the same
  with its own header and symbol.\<close>

definition display_addon_step :: "string \<Rightarrow> string \<Rightarrow> bool \<times> string \<Rightarrow> extra \<Rightarrow> bool \<times> string" where
  "display_addon_step header symb acc x =
     (let quantity' = extra_qty x
      in if quantity' > 0
         then (let html = (if \<not> fst acc then option_item_html header else snd acc);
                   safeName = remove_chars angle_chars (String_or_empty (extra_name x))
               in (True, html @ sub_option_html (symb @ '' '' @ safeName @ '' x'' @ show_int quantity')))
         else acc)"

definition display_addons :: "string \<Rightarrow> string \<Rightarrow> extra list option \<Rightarrow> string list" where
  "display_addons header symb xs =
     (case xs of
        None \<Rightarrow> []
      | Some l \<Rightarrow>
          (let r = foldl (display_addon_step header symb) (False, []) l
           in if fst r then [snd r] else []))"

definition formatOptionsForDisplay :: "cart_item \<Rightarrow> string" where
  "formatOptionsForDisplay item =
     concat
       ((case options item of
           None \<Rightarrow> []
         | Some s \<Rightarrow> if s = [] then [] else concat (map display_option (split_bar [] s))) @
        display_addons (sym_extras @ '' Extras:'') sym_plus (extras item) @
        display_addons (sym_drinks @ '' Drinks:'') sym_drinks (drinks item))"

section \<open>Order composer\<close>

subsection \<open>Phone number\<close>

definition is_digit :: "char \<Rightarrow> bool" where
  "is_digit c = (c \<in> set ''0123456789'')"

text \<open>\<^verbatim>\<open>/^(\+27|0)[1-9]\d{8}$/.test(s)\<close>\<close>

definition phoneRegex_test :: "string \<Rightarrow> bool" where
  "phoneRegex_test s =
     (let rest = (if startsWith s ''+27'' then Some (drop 3 s)
                  else if startsWith s ''0'' then Some (drop 1 s)
                  else None)
      in case rest of
           None \<Rightarrow> False
         | Some [] \<Rightarrow> False
         | Some (d # ds) \<Rightarrow> d \<in> set ''123456789'' \<and> length ds = 8 \<and> list_all is_digit ds)"

definition displayPhone :: "string \<Rightarrow> string" where
  "displayPhone cleanedPhone = replace_prefix ''27'' ''0'' (replace_prefix ''+27'' ''0'' cleanedPhone)"

subsection \<open>Environment of one call\<close>

datatype open_outcome = Opened | Blocked | Threw

text \<open>What one call of \<^verbatim>\<open>sendWhatsAppOrder\<close> gets from outside: the random source, the
  localized time, what \<^verbatim>\<open>window.open\<close> does and the clock at the calls of
  \<^verbatim>\<open>Date.now()\<close>.\<close>

record env =
  crypto_random :: "32 word option"
  math_random :: rat
  locale_time :: string
  open_outcome :: open_outcome
  t_read :: int
  t_save :: int
  t_count :: int

definition generateOrderNumber :: "env \<Rightarrow> int" where
  "generateOrderNumber e =
     (case crypto_random e of
        Some w \<Rightarrow> uint w mod 9000 + 1000
      | None \<Rightarrow> \<lfloor>math_random e * 9000\<rfloor> + 1000)"

subsection \<open>Message\<close>

definition line_price :: "cart_item \<Rightarrow> number" where
  "line_price item = or_num (parseFloat (basePrice item)) (Fin 0)"

definition line_quantity :: "cart_item \<Rightarrow> int" where
  "line_quantity item = or_int (parseInt (quantity item)) 1"

text \<open>The text appended for one piece of the options string.\<close>

definition text_option :: "string \<Rightarrow> string" where
  "text_option opt =
     (if startsWith opt ''Greens:''
      then (let greens = option_value ''Greens:'' opt
            in NL @ sym_greens @ '' *Greens:* '' @
               (if greens = ''with greens'' then ''with greens'' else ''no greens''))
      else if startsWith opt ''Sauces:''
      then (let sauces = option_value ''Sauces:'' opt
            in if sauces = ''all sauces'' then NL @ sym_sauces @ '' *Sauces:* all sauces''
               else if sauces = ''no sauces'' then NL @ sym_sauces @ '' *Sauces:* no sauces''
               else NL @ sym_sauces @ '' *Sauces:* '' @ remove_chars markup_chars sauces)
      else [])"

definition text_options :: "cart_item \<Rightarrow> string" where
  "text_options item =
     (case options item of
        None \<Rightarrow> []
      | Some s \<Rightarrow> if s = [] then [] else concat (map text_option (split_bar [] s)))"

text \<open>The list \<^verbatim>\<open>extrasList\<close>, and \<^verbatim>\<open>drinksList\<close> alike.\<close>

definition text_addon_list :: "extra list \<Rightarrow> string list" where
  "text_addon_list l =
     concat (map (\<lambda>x. let quantity' = extra_qty x
                       in if quantity' > 0
                          then [remove_chars markup_chars (String_or_empty (extra_name x)) @
                                '' x'' @ show_int quantity']
                          else []) l)"

definition text_addons :: "string \<Rightarrow> extra list option \<Rightarrow> string" where
  "text_addons label xs =
     (case xs of
        None \<Rightarrow> []
      | Some l \<Rightarrow>
          (let extrasList = text_addon_list l
           in if length extrasList > 0 then NL @ label @ join '', '' extrasList else []))"

text \<open>The loop over the cart: \<open>i\<close> is the index of the first entry of the list, \<open>n\<close> the
  length of the cart, the pair is \<^verbatim>\<open>cartTotal\<close> and \<^verbatim>\<open>message\<close>.\<close>

fun order_loop :: "nat \<Rightarrow> nat \<Rightarrow> cart_item list \<Rightarrow> number \<times> string \<Rightarrow> number \<times> string" where
  "order_loop i n [] acc = acc"
| "order_loop i n (item # rest) acc =
     (let basePrice' = line_price item;
          quantity' = line_quantity item;
          itemTotal = num_mul basePrice' (num_of_int quantity');
          safeName = remove_chars markup_chars (String_or_empty (name item));
          message =
            snd acc @
            NL @ show_int (int i + 1) @ ''. *'' @ safeName @ ''* x'' @ show_int quantity' @
            NL @ sym_money @ '' *Price:* R'' @ toFixed2 itemTotal @
            text_options item @
            text_addons (sym_plus @ '' *Extras:* '') (extras item) @
            text_addons (sym_drinks @ '' *Drinks:* '') (drinks item) @
            (if int i < int n - 1 then NL @ divider else [])
      in order_loop (Suc i) n rest (num_add (fst acc) itemTotal, message))"

definition message_header :: "int \<Rightarrow> string \<Rightarrow> string \<Rightarrow> string" where
  "message_header orderNumber name' phone' =
     ''*KODIJONG WEBSITE ORDER*'' @ NL @ NL @
     ''*ORDER NO:* '' @ show_int orderNumber @ NL @ NL @
     ''*CUSTOMER DETAILS:*'' @ NL @
     sym_person @ '' *Name:* '' @ remove_chars markup_chars name' @ NL @
     sym_phone @ '' *Phone:* '' @ phone' @ NL @ NL @
     ''*ORDER SUMMARY:*'' @ NL"

definition total_line :: "number \<Rightarrow> string" where
  "total_line cartTotal = NL @ NL @ sym_money @ '' *TOTAL AMOUNT:* R'' @ toFixed2 cartTotal @ NL"

definition message_footer :: "string \<Rightarrow> string \<Rightarrow> string" where
  "message_footer time instructions =
     NL @ sym_clock @ '' *Order Time:* '' @ time @ NL @
     (if instructions \<noteq> []
      then NL @ sym_note @ '' *Special Instructions:*'' @ NL @
           remove_chars markup_chars instructions @ NL
      else []) @
     NL @ divider @ NL @
     ''*KODIJONG THE FOOD HUB*'' @ NL @
     sym_pin @ '' 232 Far East Bank, Sandton, 2014'' @ NL @
     sym_clock @ '' Open: Mon-Sat 9AM-10PM'' @ NL @
     sym_phone @ '' +27 83 967 9365'' @ NL @ NL @
     sym_check @ '' *We will contact you shortly to confirm your order!*''"

definition order_message :: "env \<Rightarrow> string \<Rightarrow> string \<Rightarrow> string \<Rightarrow> cart_item list \<Rightarrow> string" where
  "order_message e name' cleanedPhone instructions cart =
     (let r = order_loop 0 (length cart) cart
                (Fin 0, message_header (generateOrderNumber e) name' (displayPhone cleanedPhone))
      in snd r @ total_line (fst r) @ message_footer (locale_time e) instructions)"

subsection \<open>Deep link\<close>

definition hex_digit :: "int \<Rightarrow> char" where
  "hex_digit d = (if d < 10 then char_of (48 + d) else char_of (55 + d))"

definition uri_unreserved :: "char \<Rightarrow> bool" where
  "uri_unreserved c =
     (c \<in> set ''ABCDEFGHIJKLMNOPQRSTUVWXYZabcdefghijklmnopqrstuvwxyz0123456789-_.!~*()'' \<or>
      c = CHR 0x27)"

text \<open>\<^verbatim>\<open>encodeURIComponent\<close> on the UTF-8 bytes of a string. (It throws on a lone
  surrogate, which has no UTF-8 encoding.)\<close>

definition encodeURIComponent :: "string \<Rightarrow> string" where
  "encodeURIComponent s =
     concat (map (\<lambda>c. if uri_unreserved c then [c]
                       else [CHR ''%'', hex_digit (of_char c div 16), hex_digit (of_char c mod 16)]) s)"

definition whatsappUrl :: "string \<Rightarrow> string" where
  "whatsappUrl message = ''https://wa.me/27839679365?text='' @ encodeURIComponent message"

subsection \<open>Sending\<close>

text \<open>\<^verbatim>\<open>input?.value.trim() || ''\<close>\<close>

definition input_value :: "string option \<Rightarrow> string" where
  "input_value inp = (case inp of None \<Rightarrow> [] | Some v \<Rightarrow> trim v)"

definition clear_input :: "string option \<Rightarrow> string option" where
  "clear_input inp = (case inp of None \<Rightarrow> None | Some v \<Rightarrow> Some [])"

definition sendWhatsAppOrder :: "env \<Rightarrow> page \<Rightarrow> bool \<times> page" where
  "sendWhatsAppOrder e s =
     (let (cart, s1) = getCart (t_read e) s
      in if length cart = 0 then (False, showNotification ''Your cart is empty!'' ''error'' s1)
         else
           (let name' = input_value (customer_name s1);
                phone = input_value (customer_phone s1);
                instructions = input_value (special_instructions s1)
            in if name' = [] \<or> phone = []
               then (False, showNotification ''Please enter your name and phone number'' ''error'' s1)
               else
                 (let cleanedPhone = remove_ws phone
                  in if \<not> phoneRegex_test cleanedPhone
                     then (False, showNotification ''Please enter a valid South African phone number'' ''error'' s1)
                     else
                       (let message = order_message e name' cleanedPhone instructions cart
                        in case open_outcome e of
                             Threw \<Rightarrow> (False, showNotification ''Could not open WhatsApp'' ''error'' s1)
                           | Blocked \<Rightarrow>
                               (False, showNotification ''Please allow pop-ups to send the order'' ''error'' s1)
                           | Opened \<Rightarrow>
                               (let s2 = s1\<lparr>opened := opened s1 @ [whatsappUrl message]\<rparr>;
                                    s3 = snd (saveCart (Array []) (t_save e) s2);
                                    s4 = updateCartCountImmediate (t_count e) s3;
                                    s5 = s4\<lparr>customer_name := clear_input (customer_name s4),
                                            customer_phone := clear_input (customer_phone s4),
                                            special_instructions := clear_input (special_instructions s4)\<rparr>
                                in (True, showNotification ''Order sent successfully! Check WhatsApp.'' ''success'' s5))))))"

section \<open>Cart display of the main page\<close>

definition sp :: "nat \<Rightarrow> string" where
  "sp n = replicate n (CHR '' '')"

text \<open>The template assigned to \<^verbatim>\<open>li.innerHTML\<close>.\<close>

definition item_li_html :: "nat \<Rightarrow> cart_item \<Rightarrow> string" where
  "item_li_html i item =
     (let quantity' = line_quantity item;
          itemTotal = num_mul (line_price item) (num_of_int quantity');
          productImage = (case image_src item of
                            None \<Rightarrow> ''ORDERING/placeholder.jpg''
                          | Some p \<Rightarrow> if p = [] then ''ORDERING/placeholder.jpg'' else p);
          optionsDisplay = formatOptionsForDisplay item
      in NL @ sp 24 @ ''<div class='' @ DQ @ ''cart-item-info'' @ DQ @
         ''>'' @ NL @ sp 28 @ ''<div class='' @ DQ @ ''cart-item-image'' @
         DQ @ ''>'' @ NL @ sp 32 @ ''<img src='' @ DQ @
         escape_quotes productImage @
         DQ @ '' '' @ NL @ sp 37 @ ''alt='' @ DQ @
         escape_quotes (String_or_empty (name item)) @
         DQ @ '' '' @ NL @ sp 37 @ ''loading='' @ DQ @ ''lazy'' @
         DQ @ NL @ sp 37 @ ''onerror='' @ DQ @
         ''this.onerror=null; this.src='' @ [CHR 0x27] @ ''ORDERING/placeholder.jpg'' @
         [CHR 0x27] @ DQ @ ''>'' @ NL @ sp 28 @ ''</div>'' @ NL @ sp 28 @
         ''<div class='' @ DQ @ ''cart-item-details'' @ DQ @ ''>'' @
         NL @ sp 32 @ ''<div class='' @ DQ @ ''cart-item-header'' @
         DQ @ ''>'' @ NL @ sp 36 @ ''<span class='' @ DQ @
         ''cart-item-name'' @ DQ @ ''>'' @
         remove_chars angle_chars (String_or_empty (name item)) @ '' x'' @ show_int quantity' @
         ''</span>'' @ NL @ sp 36 @ ''<span class='' @ DQ @
         ''cart-item-price'' @ DQ @ ''>R'' @
         toFixed2 itemTotal @
         ''</span>'' @ NL @ sp 32 @ ''</div>'' @ NL @ sp 32 @
         (if optionsDisplay \<noteq> []
          then ''<div class='' @ DQ @ ''cart-item-options'' @ DQ @ ''>'' @ optionsDisplay @ ''</div>''
          else []) @
         NL @ sp 28 @ ''</div>'' @ NL @ sp 24 @ ''</div>'' @ NL @
         sp 24 @ ''<button class='' @ DQ @ ''remove-item'' @ DQ @
         '' data-index='' @ DQ @
         show_int (int i) @
         DQ @ ''>&times;</button>'' @ NL @ sp 20)"

text \<open>The loop over the cart: the pair is \<^verbatim>\<open>total\<close> and the list items appended
  to the fragment, each with its class and its content.\<close>

fun display_loop ::
  "nat \<Rightarrow> cart_item list \<Rightarrow> number \<times> (string \<times> string) list \<Rightarrow> number \<times> (string \<times> string) list" where
  "display_loop i [] acc = acc"
| "display_loop i (item # rest) acc =
     (let basePrice' = line_price item;
          quantity' = line_quantity item;
          itemTotal = num_mul basePrice' (num_of_int quantity')
      in display_loop (Suc i) rest
           (num_add (fst acc) itemTotal, snd acc @ [(''cart-item'', item_li_html i item)]))"

definition updateCartDisplay :: "int \<Rightarrow> page \<Rightarrow> page" where
  "updateCartDisplay now s =
     (let (cart, s1) = getCart now s
      in case orderList s1 of
           None \<Rightarrow> s1
         | Some old \<Rightarrow>
             (let r = (if length cart = 0 then (Fin 0, [(''empty-cart'', ''Your cart is empty'')])
                       else display_loop 0 cart (Fin 0, []))
              in s1\<lparr>orderList := Some (snd r),
                    totalPriceElement :=
                      (case totalPriceElement s1 of
                         None \<Rightarrow> None
                       | Some t \<Rightarrow> Some (''R'' @ toFixed2 (fst r))),
                    orderList_listeners := Suc (orderList_listeners s1)\<rparr>))"

subsection \<open>Remove button\<close>

record click_event =
  target_is_remove_item :: bool
  target_data_index :: "string option"

text \<open>\<^verbatim>\<open>cart.splice(index, 1)\<close> for an index in range.\<close>

definition splice1 :: "nat \<Rightarrow> 'a list \<Rightarrow> 'a list" where
  "splice1 k xs = take k xs @ drop (Suc k) xs"

text \<open>
  The click listener that \<^verbatim>\<open>updateCartDisplay\<close> adds to the list, run once, with the
  clock at the three calls of \<^verbatim>\<open>Date.now()\<close>. An array with an index in range is not
  the empty array of the \<^verbatim>\<open>catch\<close> branch of \<^verbatim>\<open>getCart\<close>, so it is the
  array that \<^verbatim>\<open>_cartCache\<close> refers to, and \<^verbatim>\<open>splice\<close> changes the cache in
  place.
\<close>

definition removeItemHandler :: "click_event \<Rightarrow> int \<Rightarrow> int \<Rightarrow> int \<Rightarrow> page \<Rightarrow> page" where
  "removeItemHandler ev t1 t2 t3 s =
     (if target_is_remove_item ev
      then (case parseInt_str (Some 10)
                   (case target_data_index ev of None \<Rightarrow> ''undefined'' | Some d \<Rightarrow> d) of
              None \<Rightarrow> s
            | Some index \<Rightarrow>
                (let (cart, s1) = getCart t1 s
                 in if index \<ge> 0 \<and> index < int (length cart)
                    then (let cart' = splice1 (nat index) cart;
                              s2 = s1\<lparr>cartCache := Some cart'\<rparr>;
                              s3 = snd (saveCart (Array cart') t2 s2);
                              s4 = updateCartDisplay t3 s3
                          in updateCartCount s4)
                    else s1))
      else s)"

text \<open>
  A click on a remove button. \<^verbatim>\<open>updateCartDisplay\<close> adds a listener to the list at every
  call and none is ever removed; the click runs those registered when it is dispatched, one
  after another, on the same event (a listener added meanwhile does not run for it). The
  \<open>i\<close>-th of them reads the clock at the three times \<open>clock i\<close>.
\<close>

definition dispatch_click :: "click_event \<Rightarrow> (nat \<Rightarrow> int \<times> int \<times> int) \<Rightarrow> page \<Rightarrow> page" where
  "dispatch_click ev clock s =
     foldl (\<lambda>st i. case clock i of (t1, t2, t3) \<Rightarrow> removeItemHandler ev t1 t2 t3 st) s
       [0 ..< orderList_listeners s]"

section \<open>Definitions that follow the specification\<close>

text \<open>
  The total the specification asks for: the sum over the entries of \<open>basePrice \<times> quantity\<close>,
  for entries whose two fields are numbers, in the arithmetic of doubles and in the order of
  the cart.
\<close>

definition numeric_item :: "cart_item \<Rightarrow> bool" where
  "numeric_item item =
     (basePrice item \<noteq> None \<and> (case quantity item of JNum q \<Rightarrow> True | _ \<Rightarrow> False))"

definition spec_line_total :: "cart_item \<Rightarrow> number" where
  "spec_line_total item =
     (case basePrice item of
        None \<Rightarrow> NaN
      | Some p \<Rightarrow> (case quantity item of JNum q \<Rightarrow> num_mul (fl p) (fl q) | _ \<Rightarrow> NaN))"

definition spec_cart_total :: "cart_item list \<Rightarrow> number" where
  "spec_cart_total cart = foldl num_add (Fin 0) (map spec_line_total cart)"

text \<open>A quantity that is a whole number other than 0, below \<open>10^21\<close> in size and a double
  itself.\<close>

definition whole_quantity :: "cart_item \<Rightarrow> bool" where
  "whole_quantity item =
     (case quantity item of
        JNum q \<Rightarrow> q \<noteq> 0 \<and> q = of_int \<lfloor>q\<rfloor> \<and> \<bar>q\<bar> < 10 ^ 21 \<and> fl q = Fin q
      | _ \<Rightarrow> False)"

text \<open>
  The decoding of the options of an entry that the specification describes for both
  formatters: the options string is split on \<^verbatim>\<open>" | "\<close>, a piece is recognized by its
  prefix and its value is the rest, trimmed; the extras and the drinks are those of quantity
  above 0, each with its name and quantity.
\<close>

datatype seg_kind = Greens | Sauces

definition option_pieces :: "cart_item \<Rightarrow> string list" where
  "option_pieces item =
     (case options item of None \<Rightarrow> [] | Some s \<Rightarrow> if s = [] then [] else split_bar [] s)"

definition decode_piece :: "string \<Rightarrow> (seg_kind \<times> string) list" where
  "decode_piece opt =
     (if startsWith opt ''Greens:'' then [(Greens, option_value ''Greens:'' opt)]
      else if startsWith opt ''Sauces:'' then [(Sauces, option_value ''Sauces:'' opt)]
      else [])"

definition decoded_segments :: "cart_item \<Rightarrow> (seg_kind \<times> string) list" where
  "decoded_segments item = concat (map decode_piece (option_pieces item))"

definition decoded_addons :: "extra list option \<Rightarrow> (string \<times> int) list" where
  "decoded_addons xs =
     (case xs of
        None \<Rightarrow> []
      | Some l \<Rightarrow> map (\<lambda>x. (String_or_empty (extra_name x), extra_qty x))
                    (filter (\<lambda>x. extra_qty x > 0) l))"

text \<open>How the display renders a decoded segment and a decoded list of extras or drinks.\<close>

definition html_segment :: "seg_kind \<times> string \<Rightarrow> string" where
  "html_segment kv =
     option_item_html
       ((case fst kv of Greens \<Rightarrow> sym_greens | Sauces \<Rightarrow> sym_sauces) @ '' '' @
        or_not_specified (snd kv))"

definition html_addons :: "string \<Rightarrow> string \<Rightarrow> (string \<times> int) list \<Rightarrow> string" where
  "html_addons header symb l =
     (if l = [] then []
      else option_item_html header @
           concat (map (\<lambda>nq. sub_option_html
                          (symb @ '' '' @ remove_chars angle_chars (fst nq) @ '' x'' @
                           show_int (snd nq))) l))"

text \<open>How the order message renders them.\<close>

definition text_segment :: "seg_kind \<times> string \<Rightarrow> string" where
  "text_segment kv =
     (case fst kv of
        Greens \<Rightarrow>
          NL @ sym_greens @ '' *Greens:* '' @
          (if snd kv = ''with greens'' then ''with greens'' else ''no greens'')
      | Sauces \<Rightarrow> NL @ sym_sauces @ '' *Sauces:* '' @ remove_chars markup_chars (snd kv))"

definition text_addons_of :: "string \<Rightarrow> (string \<times> int) list \<Rightarrow> string" where
  "text_addons_of label l =
     (if l = [] then []
      else NL @ label @
           join '', '' (map (\<lambda>nq. remove_chars markup_chars (fst nq) @ '' x'' @ show_int (snd nq)) l))"

section \<open>Example values\<close>

text \<open>The entry of the scenario \<^verbatim>\<open>[{basePrice:85, quantity:2}]\<close>, and the same entry with
  quantity 0.\<close>

definition scenario_item :: cart_item where
  "scenario_item =
     \<lparr>name = None, basePrice = Some 85, quantity = JNum 2, options = None, extras = None,
      drinks = None, image_src = None\<rparr>"

definition zero_quantity_item :: cart_item where
  "zero_quantity_item = scenario_item\<lparr>quantity := JNum 0\<rparr>"



definition huge_quantity_item :: cart_item where
  "huge_quantity_item = scenario_item\<lparr>quantity := JNum (10 ^ 20)\<rparr>"

text \<open>A page right after loading, with nothing stored, all elements present and one badge.\<close>

definition blank_page :: page where
  "blank_page =
     \<lparr>ls_item = None, ls_getItem_throws = False, ls_setItem_throws = False,
      cartCache = None, cartCacheTime = 0, console_errors = [],
      notificationQueue = [], notificationShowing = False, notification_el = None,
      timers = [], updateTimeout = False, pendingUpdate = False,
      count_els = [\<lparr>textContent = ''0'', is_badge = True, display = ''none''\<rparr>],
      customer_name = Some [], customer_phone = Some [], special_instructions = Some [],
      orderList = Some [], orderList_listeners = 0, totalPriceElement = Some [],
      opened = []\<rparr>"

text \<open>The same page with a cart in storage and the contact fields filled in.\<close>

definition page_with :: "cart_item list \<Rightarrow> page" where
  "page_with cart =
     blank_page\<lparr>ls_item := Some (JsonText (Array cart)),
                customer_name := Some ''Thabo'', customer_phone := Some ''082 123 4567'',
                special_instructions := Some ''no onions''\<rparr>"

text \<open>A page whose stored text parses to \<^verbatim>\<open>null\<close>, with no cache; the same page
  with a cache written at time 4500; and a page whose stored text is the empty string.\<close>

definition null_stored_page :: page where
  "null_stored_page = blank_page\<lparr>ls_item := Some (JsonText (Other JNull))\<rparr>"

definition cached_page :: page where
  "cached_page = null_stored_page\<lparr>cartCache := Some [scenario_item], cartCacheTime := 4500\<rparr>"

definition empty_text_page :: page where
  "empty_text_page = blank_page\<lparr>ls_item := Some EmptyText\<rparr>"

text \<open>The page with the scenario cart when the storage refuses every write.\<close>

definition readonly_page :: page where
  "readonly_page = (page_with [scenario_item])\<lparr>ls_setItem_throws := True\<rparr>"

text \<open>The page with the scenario cart while a notification is showing.\<close>

definition busy_page :: page where
  "busy_page =
     (page_with [scenario_item])
       \<lparr>notificationShowing := True,
        notification_el := Some (''notification notification-success'', ''fas fa-check-circle'', ''Saved'')\<rparr>"

text \<open>A page with two entries in the cart, and a click on the remove button of the second.\<close>

definition two_item_page :: page where
  "two_item_page = page_with [scenario_item, zero_quantity_item]"

definition click_second :: click_event where
  "click_second = \<lparr>target_is_remove_item = True, target_data_index = Some ''1''\<rparr>"

definition click_first :: click_event where
  "click_first = \<lparr>target_is_remove_item = True, target_data_index = Some ''0''\<rparr>"

text \<open>An entry whose options string holds a greens value that the product page never
  writes, and an entry as the product page writes it.\<close>

definition odd_greens_item :: cart_item where
  "odd_greens_item = scenario_item\<lparr>options := Some ''Greens: maybe''\<rparr>"

definition full_item :: cart_item where
  "full_item =
     scenario_item
       \<lparr>name := Some ''Kota'',
        options := Some ''Greens: with greens | Sauces: all sauces'',
        extras := Some [\<lparr>extra_name = Some ''Cheese'', extra_quantity = JNum 1\<rparr>,
                        \<lparr>extra_name = Some ''Egg'', extra_quantity = JNum 0\<rparr>],
        drinks := Some [\<lparr>extra_name = Some ''Coke'', extra_quantity = JNum 2\<rparr>]\<rparr>"

text \<open>
  The main page with three entries in the cart, once it is loaded (which calls
  \<^verbatim>\<open>updateCartCount\<close> and then \<^verbatim>\<open>updateCartDisplay\<close>, at time 1000, and whose count
  timer fires at time 1050) and the cart is opened (which calls \<^verbatim>\<open>updateCartDisplay\<close>
  again, at time 2000); and the clock of the listeners that a click runs.
\<close>

definition three_item_page :: page where
  "three_item_page = page_with [scenario_item, zero_quantity_item, full_item]"

definition opened_cart_page :: page where
  "opened_cart_page =
     updateCartDisplay 2000
       (countTimerFired 1050 (updateCartDisplay 1000 (updateCartCount three_item_page)))"

definition click_clock :: "nat \<Rightarrow> int \<times> int \<times> int" where
  "click_clock i = (5000 + 10 * int i, 5001 + 10 * int i, 5002 + 10 * int i)"

definition example_env :: env where
  "example_env =
     \<lparr>crypto_random = Some 123456, math_random = 0, locale_time = ''03 Nov 2026, 10:00'',
      open_outcome = Opened, t_read = 5000, t_save = 5001, t_count = 5002\<rparr>"

section \<open>Properties of the cart store\<close>

lemma saveCart_true:
  "fst (saveCart v t s) \<Longrightarrow>
     \<exists>c. v = Array c \<and> \<not> ls_setItem_throws s \<and>
       snd (saveCart v t s) = s\<lparr>ls_item := Some (JsonText (Array c)), cartCache := Some c, cartCacheTime := t\<rparr>"
  by (cases v) (auto simp: saveCart_def setItem_def JSON_stringify_def console_error_def split: if_splits)

text \<open>
  C6. Read after write. When \<^verbatim>\<open>saveCart(c)\<close> returns true, a \<^verbatim>\<open>getCart()\<close>
  that follows within the cache duration returns \<open>c\<close>, and so does a later one whenever the
  storage read does not throw. For a value that is not an array, \<^verbatim>\<open>saveCart\<close>
  returns false, the stored item is unchanged and every later \<^verbatim>\<open>getCart()\<close> returns
  what it would have returned without the call.
\<close>

theorem saveCart_getCart_coherent:
  "(fst (saveCart (Array c) t s) \<longrightarrow>
      (t' - t < CACHE_DURATION \<or> \<not> ls_getItem_throws s \<longrightarrow>
         fst (getCart t' (snd (saveCart (Array c) t s))) = c)) \<and>
   \<not> fst (saveCart (Other v) t s) \<and>
   ls_item (snd (saveCart (Other v) t s)) = ls_item s \<and>
   fst (getCart t' (snd (saveCart (Other v) t s))) = fst (getCart t' s)"
proof (intro conjI impI)
  assume ok: "fst (saveCart (Array c) t s)"
  assume near: "t' - t < CACHE_DURATION \<or> \<not> ls_getItem_throws s"
  from saveCart_true [OF ok]
  have s': "\<not> ls_setItem_throws s"
    "snd (saveCart (Array c) t s) = s\<lparr>ls_item := Some (JsonText (Array c)), cartCache := Some c, cartCacheTime := t\<rparr>"
    by auto
  show "fst (getCart t' (snd (saveCart (Array c) t s))) = c"
    using near unfolding s'(2)
    by (auto simp: getCart_def cache_fresh_def readCart_def getItem_def split: option.splits)
next
  show "\<not> fst (saveCart (Other v) t s)"
    by (simp add: saveCart_def)
next
  show "ls_item (snd (saveCart (Other v) t s)) = ls_item s"
    by (simp add: saveCart_def console_error_def)
next
  show "fst (getCart t' (snd (saveCart (Other v) t s))) = fst (getCart t' s)"
    by (auto simp: saveCart_def console_error_def getCart_def cache_fresh_def readCart_def
        getItem_def split: sum.splits option.splits item_text.splits jsvalue.splits)
qed

text \<open>The theorem for C6 at the scenario cart, saved at time 5000 and read at time 5001.\<close>

theorem saveCart_getCart_coherent_witness:
  "fst (saveCart (Array [scenario_item]) 5000 blank_page) \<and>
   5001 - 5000 < CACHE_DURATION \<and>
   fst (getCart 5001 (snd (saveCart (Array [scenario_item]) 5000 blank_page))) = [scenario_item]"
proof -
  have h1: "fst (saveCart (Array [scenario_item]) 5000 blank_page)"
    by code_simp
  have h2: "5001 - 5000 < CACHE_DURATION"
    by (simp add: CACHE_DURATION_def)
  from saveCart_getCart_coherent [of "[scenario_item]" 5000 blank_page 5001] h1 h2
  show ?thesis by blast
qed

text \<open>
  C7 as stated fails twice. A stored text that parses to \<^verbatim>\<open>null\<close> gives the empty cart
  but nothing is logged; and with a cache written 500 ms earlier the storage is not read at
  all, so the same stored text leaves the cached cart as the result.
\<close>

theorem getCart_fallback_counterexample:
  "ls_item null_stored_page = Some (JsonText (Other JNull)) \<and>
   fst (getCart 5000 null_stored_page) = [] \<and>
   console_errors (snd (getCart 5000 null_stored_page)) = [] \<and>
   ls_item cached_page = Some (JsonText (Other JNull)) \<and>
   fst (getCart 5000 cached_page) = [scenario_item]"
  by code_simp

text \<open>
  C7, amended. \<^verbatim>\<open>getCart\<close> returns to its caller whatever the storage holds. With a
  fresh cache it returns the cache and does not read the storage. Otherwise: when the read
  throws, or the stored text is not empty and does not parse, it returns the empty cart and
  logs, leaving the cache as it was; when the stored text parses to a value that is not an
  array, and when there is no stored text or it is the empty string (which is not parsed), it
  returns the empty cart, caches it, and logs nothing.
\<close>

theorem getCart_fallback:
  "(cache_fresh now s \<longrightarrow> cartCache s = Some (fst (getCart now s)) \<and> snd (getCart now s) = s) \<and>
   (\<not> cache_fresh now s \<longrightarrow>
      (ls_getItem_throws s \<or> ls_item s = Some BadText \<longrightarrow>
         getCart now s = ([], s\<lparr>console_errors := console_errors s @ [''Error reading cart:'']\<rparr>)) \<and>
      (\<not> ls_getItem_throws s \<and>
       (ls_item s = Some (JsonText (Other v)) \<or> ls_item s = Some EmptyText \<or> ls_item s = None) \<longrightarrow>
         getCart now s = ([], s\<lparr>cartCache := Some [], cartCacheTime := now\<rparr>)))"
  by (auto simp: getCart_def cache_fresh_def readCart_def getItem_def console_error_def
      split: option.splits)

text \<open>The theorem for C7 on a page whose storage read throws, and on a page whose stored
  text is the empty string, both with no cache.\<close>

theorem getCart_fallback_witness:
  "\<not> cache_fresh 5000 (blank_page\<lparr>ls_getItem_throws := True\<rparr>) \<and>
   ls_getItem_throws (blank_page\<lparr>ls_getItem_throws := True\<rparr>) \<and>
   getCart 5000 (blank_page\<lparr>ls_getItem_throws := True\<rparr>) =
     ([], blank_page\<lparr>ls_getItem_throws := True, console_errors := [''Error reading cart:'']\<rparr>) \<and>
   \<not> cache_fresh 5000 empty_text_page \<and>
   \<not> ls_getItem_throws empty_text_page \<and>
   ls_item empty_text_page = Some EmptyText \<and>
   getCart 5000 empty_text_page = ([], empty_text_page\<lparr>cartCache := Some [], cartCacheTime := 5000\<rparr>) \<and>
   console_errors (snd (getCart 5000 empty_text_page)) = []"
proof -
  have h1: "\<not> cache_fresh 5000 (blank_page\<lparr>ls_getItem_throws := True\<rparr>)"
    by code_simp
  have h2: "ls_getItem_throws (blank_page\<lparr>ls_getItem_throws := True\<rparr>)"
    by simp
  have c: "console_errors (blank_page\<lparr>ls_getItem_throws := True\<rparr>) = []"
    by code_simp
  have e1: "\<not> cache_fresh 5000 empty_text_page" "\<not> ls_getItem_throws empty_text_page"
    "ls_item empty_text_page = Some EmptyText" "console_errors empty_text_page = []"
    by code_simp+
  note r1 = getCart_fallback [of 5000 "blank_page\<lparr>ls_getItem_throws := True\<rparr>"]
  note r2 = getCart_fallback [of 5000 empty_text_page]
  from r1 h1 h2 c have a: "getCart 5000 (blank_page\<lparr>ls_getItem_throws := True\<rparr>) =
     ([], blank_page\<lparr>ls_getItem_throws := True, console_errors := [''Error reading cart:'']\<rparr>)"
    by simp
  from r2 e1 have b: "getCart 5000 empty_text_page =
     ([], empty_text_page\<lparr>cartCache := Some [], cartCacheTime := 5000\<rparr>)"
    by simp
  from a b h1 h2 e1 show ?thesis by simp
qed

section \<open>Properties of the totals\<close>

lemma order_loop_fst:
  "fst (order_loop i n cart acc) =
     foldl num_add (fst acc)
       (map (\<lambda>item. num_mul (line_price item) (num_of_int (line_quantity item))) cart)"
  by (induction cart arbitrary: i acc) (simp_all add: Let_def)

lemma display_loop_fst:
  "fst (display_loop i cart acc) =
     foldl num_add (fst acc)
       (map (\<lambda>item. num_mul (line_price item) (num_of_int (line_quantity item))) cart)"
  by (induction cart arbitrary: i acc) (simp_all add: Let_def)

lemma fl_not_NaN: "fl x \<noteq> NaN"
  by (simp add: fl_def Let_def)

lemma or_num_fl: "or_num (fl x) (Fin 0) = fl x"
  using fl_not_NaN [of x] by (cases "fl x") (auto simp: or_num_def)

lemma whole_line_total:
  assumes "numeric_item item" "whole_quantity item"
  shows "num_mul (line_price item) (num_of_int (line_quantity item)) = spec_line_total item"
proof -
  from assms obtain p q where p: "basePrice item = Some p" and q: "quantity item = JNum q"
    by (auto simp: numeric_item_def split: jsval.splits)
  from assms(2) q have w: "q \<noteq> 0" "q = of_int \<lfloor>q\<rfloor>" "\<bar>q\<bar> < 10 ^ 21" "fl q = Fin q"
    by (auto simp: whole_quantity_def)
  have ge: "1 / 10 ^ 6 \<le> \<bar>q\<bar>"
  proof -
    from w(1,2) have "\<lfloor>q\<rfloor> \<noteq> 0" by auto
    then have "1 \<le> \<bar>\<lfloor>q\<rfloor>\<bar>" by simp
    then have "(1::rat) \<le> of_int \<bar>\<lfloor>q\<rfloor>\<bar>" by linarith
    then have "1 \<le> \<bar>q\<bar>" using w(2) by (metis of_int_abs)
    then show ?thesis by simp
  qed
  have t: "parseInt_num q = \<lfloor>q\<rfloor>"
  proof (cases "q < 0")
    case True
    have "- \<lfloor>- q\<rfloor> = \<lfloor>q\<rfloor>" using w(2) by (metis floor_of_int of_int_minus minus_minus)
    then show ?thesis using ge w True by (simp add: parseInt_num_def)
  next
    case False
    then show ?thesis using ge w by (simp add: parseInt_num_def)
  qed
  have "line_quantity item = \<lfloor>q\<rfloor>"
    using w(1,2,4) q t by (auto simp: line_quantity_def or_int_def)
  then have "num_of_int (line_quantity item) = fl q"
    using w(2) by (simp add: num_of_int_def)
  moreover have "line_price item = fl p"
    using p by (simp add: line_price_def or_num_fl)
  ultimately show ?thesis using p q by (simp add: spec_line_total_def)
qed

lemma whole_cart_total:
  "list_all (\<lambda>item. numeric_item item \<and> whole_quantity item) cart \<Longrightarrow>
     foldl num_add a (map (\<lambda>item. num_mul (line_price item) (num_of_int (line_quantity item))) cart) =
     foldl num_add a (map spec_line_total cart)"
  by (induction cart arbitrary: a) (simp_all add: whole_line_total)

lemma getCart_elements:
  "orderList (snd (getCart now s)) = orderList s"
  "totalPriceElement (snd (getCart now s)) = totalPriceElement s"
  by (auto simp: getCart_def console_error_def split: sum.splits option.splits)

text \<open>The texts of \<^verbatim>\<open>toFixed(2)\<close> for some doubles: 2.675 is the double just below it, and
  a number from \<open>10^21\<close> on is in exponent notation.\<close>

lemma toFixed2_examples:
  "toFixed2 (fl (2675 / 1000)) = ''2.67''"
  "toFixed2 (fl (1005 / 1000)) = ''1.00''"
  "toFixed2 (fl (- 1 / 1000)) = ''-0.00''"
  "toFixed2 (num_add (fl (1 / 10)) (fl (2 / 10))) = ''0.30''"
  "toFixed2 (fl (10 ^ 21)) = ''1e+21''"
  "toFixed2 (fl (10 ^ 23)) = ''1e+23''"
  "toFixed2 (num_mul (fl 85) (fl (10 ^ 20))) = ''8.5e+21''"
  "toFixed2 (num_add PInf (fl 85)) = ''Infinity''"
  by code_simp+

text \<open>
  C1 as stated fails for a quantity of 0, which is a number: the entry is priced with
  quantity 1, so the cart \<^verbatim>\<open>[{basePrice:85, quantity:0}]\<close> shows \<^verbatim>\<open>R85.00\<close> in the
  display and in the order message, while the sum of \<open>basePrice \<times> quantity\<close> is 0.
\<close>

theorem zero_quantity_total_counterexample:
  "numeric_item zero_quantity_item \<and>
   totalPriceElement (updateCartDisplay 5000 (page_with [zero_quantity_item])) = Some ''R85.00'' \<and>
   total_line (fst (order_loop 0 1 [zero_quantity_item] (Fin 0, []))) =
     NL @ NL @ sym_money @ '' *TOTAL AMOUNT:* R85.00'' @ NL \<and>
   ''R'' @ toFixed2 (spec_cart_total [zero_quantity_item]) = ''R0.00''"
  by code_simp

text \<open>
  C1, amended. For every cart whose entries have a numeric basePrice and a quantity that is a
  whole number other than 0 (a double, below \<open>10^21\<close> in size), the total that
  \<^verbatim>\<open>updateCartDisplay\<close> writes and the TOTAL AMOUNT line of the order message are the sum
  over the entries of \<open>basePrice \<times> quantity\<close>, formed in the arithmetic of doubles in the order
  of the cart and formatted by \<^verbatim>\<open>toFixed(2)\<close>.
\<close>

theorem cart_total_is_sum:
  assumes "list_all (\<lambda>item. numeric_item item \<and> whole_quantity item) cart"
    and "fst (getCart now s) = cart"
    and "orderList s \<noteq> None"
    and "totalPriceElement s \<noteq> None"
  shows "totalPriceElement (updateCartDisplay now s) = Some (''R'' @ toFixed2 (spec_cart_total cart)) \<and>
    order_message e name' phone instructions cart =
      snd (order_loop 0 (length cart) cart
             (Fin 0, message_header (generateOrderNumber e) name' (displayPhone phone))) @
      NL @ NL @ sym_money @ '' *TOTAL AMOUNT:* R'' @ toFixed2 (spec_cart_total cart) @ NL @
      message_footer (locale_time e) instructions"
proof
  obtain c s1 where g: "getCart now s = (c, s1)" by (cases "getCart now s")
  with assms(2) have c: "c = cart" by simp
  from g have s1: "orderList s1 = orderList s" "totalPriceElement s1 = totalPriceElement s"
    using getCart_elements [of now s] by simp_all
  from assms(3,4) obtain ol tp where el: "orderList s = Some ol" "totalPriceElement s = Some tp"
    by auto
  have tot: "fst (display_loop 0 cart (Fin 0, [])) = spec_cart_total cart"
    using whole_cart_total [OF assms(1)] by (simp add: display_loop_fst spec_cart_total_def)
  have empty: "cart = [] \<Longrightarrow> spec_cart_total cart = Fin 0"
    by (simp add: spec_cart_total_def)
  show "totalPriceElement (updateCartDisplay now s) = Some (''R'' @ toFixed2 (spec_cart_total cart))"
    using g c s1 el tot empty by (auto simp: updateCartDisplay_def Let_def)
next
  have "fst (order_loop 0 (length cart) cart
               (Fin 0, message_header (generateOrderNumber e) name' (displayPhone phone)))
          = spec_cart_total cart"
    using whole_cart_total [OF assms(1)] by (simp add: order_loop_fst spec_cart_total_def)
  then show "order_message e name' phone instructions cart =
      snd (order_loop 0 (length cart) cart
             (Fin 0, message_header (generateOrderNumber e) name' (displayPhone phone))) @
      NL @ NL @ sym_money @ '' *TOTAL AMOUNT:* R'' @ toFixed2 (spec_cart_total cart) @ NL @
      message_footer (locale_time e) instructions"
    by (simp add: order_message_def Let_def total_line_def)
qed

text \<open>The theorem for C1 at the cart \<^verbatim>\<open>[{basePrice:85, quantity:2}]\<close>, where the total
  displayed is \<^verbatim>\<open>R170.00\<close>, and at the cart \<^verbatim>\<open>[{basePrice:85, quantity:1e20}]\<close>, where
  it is \<^verbatim>\<open>R8.5e+21\<close>.\<close>

theorem cart_total_is_sum_witness:
  "list_all (\<lambda>item. numeric_item item \<and> whole_quantity item) [scenario_item] \<and>
   fst (getCart 5000 (page_with [scenario_item])) = [scenario_item] \<and>
   orderList (page_with [scenario_item]) \<noteq> None \<and>
   totalPriceElement (page_with [scenario_item]) \<noteq> None \<and>
   totalPriceElement (updateCartDisplay 5000 (page_with [scenario_item])) = Some ''R170.00'' \<and>
   list_all (\<lambda>item. numeric_item item \<and> whole_quantity item) [huge_quantity_item] \<and>
   fst (getCart 5000 (page_with [huge_quantity_item])) = [huge_quantity_item] \<and>
   totalPriceElement (updateCartDisplay 5000 (page_with [huge_quantity_item])) = Some ''R8.5e+21''"
proof -
  have h1: "list_all (\<lambda>item. numeric_item item \<and> whole_quantity item) [scenario_item]"
    by code_simp
  have h2: "fst (getCart 5000 (page_with [scenario_item])) = [scenario_item]"
    by code_simp
  have h3: "orderList (page_with c) \<noteq> None" for c
    by (simp add: page_with_def blank_page_def)
  have h4: "totalPriceElement (page_with c) \<noteq> None" for c
    by (simp add: page_with_def blank_page_def)
  have v: "''R'' @ toFixed2 (spec_cart_total [scenario_item]) = ''R170.00''"
    by code_simp
  have k1: "list_all (\<lambda>item. numeric_item item \<and> whole_quantity item) [huge_quantity_item]"
    by code_simp
  have k2: "fst (getCart 5000 (page_with [huge_quantity_item])) = [huge_quantity_item]"
    by code_simp
  have w: "''R'' @ toFixed2 (spec_cart_total [huge_quantity_item]) = ''R8.5e+21''"
    by code_simp
  note r1 = cart_total_is_sum [OF h1 h2 h3 h4, THEN conjunct1]
  note r2 = cart_total_is_sum [OF k1 k2 h3 h4, THEN conjunct1]
  from r1 r2 v w h1 h2 h3 h4 k1 k2 show ?thesis
    by simp
qed




section \<open>Properties of the two formatters\<close>

lemma display_option_decode: "display_option opt = map html_segment (decode_piece opt)"
  by (simp add: display_option_def decode_piece_def html_segment_def)

lemma sauces_plain:
  "remove_chars markup_chars ''all sauces'' = ''all sauces''"
  "remove_chars markup_chars ''no sauces'' = ''no sauces''"
  by (simp_all add: remove_chars_def markup_chars_def)

lemma text_option_decode: "text_option opt = concat (map text_segment (decode_piece opt))"
  by (simp add: text_option_def decode_piece_def text_segment_def Let_def sauces_plain)

lemma concat_map_map: "concat (map (\<lambda>x. map f (g x)) xs) = map f (concat (map g xs))"
  by (induction xs) simp_all

lemma concat_concat_map: "concat (map (\<lambda>x. concat (map f (g x))) xs) = concat (map f (concat (map g xs)))"
  by (induction xs) simp_all

lemma display_options_decode:
  "(case options item of None \<Rightarrow> [] | Some s \<Rightarrow> if s = [] then [] else concat (map display_option (split_bar [] s)))
     = map html_segment (decoded_segments item)"
  by (cases "options item")
     (simp_all add: decoded_segments_def option_pieces_def display_option_decode [abs_def] concat_map_map)

lemma text_options_decode:
  "text_options item = concat (map text_segment (decoded_segments item))"
  by (cases "options item")
     (simp_all add: text_options_def decoded_segments_def option_pieces_def
        text_option_decode [abs_def] concat_concat_map)

lemma display_addon_foldl:
  "foldl (display_addon_step header symb) acc l =
     (let d = decoded_addons (Some l)
      in if d = [] then acc
         else (True, (if fst acc then snd acc else option_item_html header) @
                     concat (map (\<lambda>nq. sub_option_html
                          (symb @ '' '' @ remove_chars angle_chars (fst nq) @ '' x'' @
                           show_int (snd nq))) d)))"
proof (induction l arbitrary: acc)
  case Nil
  then show ?case by (simp add: decoded_addons_def)
next
  case (Cons x l)
  show ?case
    unfolding foldl_Cons Cons.IH
    by (cases acc) (simp add: display_addon_step_def decoded_addons_def Let_def)
qed

lemma display_addons_decode:
  "concat (display_addons header symb xs) = html_addons header symb (decoded_addons xs)"
proof (cases xs)
  case None
  then show ?thesis by (simp add: display_addons_def html_addons_def decoded_addons_def)
next
  case (Some l)
  then show ?thesis
    by (simp add: display_addons_def html_addons_def display_addon_foldl Let_def)
qed

lemma text_addon_list_decode:
  "text_addon_list l =
     map (\<lambda>nq. remove_chars markup_chars (fst nq) @ '' x'' @ show_int (snd nq)) (decoded_addons (Some l))"
  by (induction l) (simp_all add: text_addon_list_def decoded_addons_def Let_def)

lemma text_addons_decode:
  "text_addons label xs = text_addons_of label (decoded_addons xs)"
proof (cases xs)
  case None
  then show ?thesis by (simp add: text_addons_def text_addons_of_def decoded_addons_def)
next
  case (Some l)
  then show ?thesis
    by (simp add: text_addons_def text_addons_of_def text_addon_list_decode Let_def)
qed

text \<open>
  C8 as stated fails: the two formatters do not show the same values. For the options string
  \<^verbatim>\<open>Greens: maybe\<close> the display shows the value \<^verbatim>\<open>maybe\<close>, the order message shows
  \<^verbatim>\<open>no greens\<close>.
\<close>

theorem greens_value_counterexample:
  "formatOptionsForDisplay odd_greens_item = option_item_html (sym_greens @ '' maybe'') \<and>
   text_options odd_greens_item = NL @ sym_greens @ '' *Greens:* no greens''"
  by code_simp

text \<open>
  C8, amended. For every cart entry the display and the order message render one and the
  same decoding: the same \<^verbatim>\<open>Greens:\<close> and \<^verbatim>\<open>Sauces:\<close> pieces of the options string,
  in the same order, and the same extras and drinks, those of quantity above 0, with the
  same quantities. The display shows each value as it is, or \<^verbatim>\<open>Not specified\<close> when it is
  empty, and names without angle brackets; the message shows \<^verbatim>\<open>with greens\<close> for that
  value and \<^verbatim>\<open>no greens\<close> for every other greens value, the sauces value without the
  markup characters, and names without the markup characters. So both show the same value
  for a greens value that is \<^verbatim>\<open>with greens\<close> or \<^verbatim>\<open>no greens\<close> and for a sauces value
  that is not empty and has no markup character.
\<close>

theorem option_decoding_shared:
  "formatOptionsForDisplay item =
     concat (map html_segment (decoded_segments item)) @
     html_addons (sym_extras @ '' Extras:'') sym_plus (decoded_addons (extras item)) @
     html_addons (sym_drinks @ '' Drinks:'') sym_drinks (decoded_addons (drinks item)) \<and>
   text_options item @
   text_addons (sym_plus @ '' *Extras:* '') (extras item) @
   text_addons (sym_drinks @ '' *Drinks:* '') (drinks item) =
     concat (map text_segment (decoded_segments item)) @
     text_addons_of (sym_plus @ '' *Extras:* '') (decoded_addons (extras item)) @
     text_addons_of (sym_drinks @ '' *Drinks:* '') (decoded_addons (drinks item)) \<and>
   (v = ''with greens'' \<or> v = ''no greens'' \<longrightarrow>
      html_segment (Greens, v) = option_item_html (sym_greens @ '' '' @ v) \<and>
      text_segment (Greens, v) = NL @ sym_greens @ '' *Greens:* '' @ v) \<and>
   (w \<noteq> [] \<and> remove_chars markup_chars w = w \<longrightarrow>
      html_segment (Sauces, w) = option_item_html (sym_sauces @ '' '' @ w) \<and>
      text_segment (Sauces, w) = NL @ sym_sauces @ '' *Sauces:* '' @ w)"
proof (intro conjI impI)
  show "formatOptionsForDisplay item =
     concat (map html_segment (decoded_segments item)) @
     html_addons (sym_extras @ '' Extras:'') sym_plus (decoded_addons (extras item)) @
     html_addons (sym_drinks @ '' Drinks:'') sym_drinks (decoded_addons (drinks item))"
    by (simp add: formatOptionsForDisplay_def display_options_decode display_addons_decode)
  show "text_options item @
   text_addons (sym_plus @ '' *Extras:* '') (extras item) @
   text_addons (sym_drinks @ '' *Drinks:* '') (drinks item) =
     concat (map text_segment (decoded_segments item)) @
     text_addons_of (sym_plus @ '' *Extras:* '') (decoded_addons (extras item)) @
     text_addons_of (sym_drinks @ '' *Drinks:* '') (decoded_addons (drinks item))"
    by (simp add: text_options_decode text_addons_decode)
next
  assume "v = ''with greens'' \<or> v = ''no greens''"
  then show "html_segment (Greens, v) = option_item_html (sym_greens @ '' '' @ v)"
    and "text_segment (Greens, v) = NL @ sym_greens @ '' *Greens:* '' @ v"
    by (auto simp: html_segment_def text_segment_def or_not_specified_def)
next
  assume "w \<noteq> [] \<and> remove_chars markup_chars w = w"
  then show "html_segment (Sauces, w) = option_item_html (sym_sauces @ '' '' @ w)"
    and "text_segment (Sauces, w) = NL @ sym_sauces @ '' *Sauces:* '' @ w"
    by (auto simp: html_segment_def text_segment_def or_not_specified_def)
qed

text \<open>The theorem for C8 at an entry as the product page writes it.\<close>

theorem option_decoding_shared_witness:
  "decoded_segments full_item = [(Greens, ''with greens''), (Sauces, ''all sauces'')] \<and>
   decoded_addons (extras full_item) = [(''Cheese'', 1)] \<and>
   decoded_addons (drinks full_item) = [(''Coke'', 2)] \<and>
   remove_chars markup_chars ''all sauces'' = ''all sauces'' \<and>
   formatOptionsForDisplay full_item =
     html_segment (Greens, ''with greens'') @ html_segment (Sauces, ''all sauces'') @
     html_addons (sym_extras @ '' Extras:'') sym_plus [(''Cheese'', 1)] @
     html_addons (sym_drinks @ '' Drinks:'') sym_drinks [(''Coke'', 2)] \<and>
   html_segment (Greens, ''with greens'') = option_item_html (sym_greens @ '' with greens'') \<and>
   text_segment (Greens, ''with greens'') = NL @ sym_greens @ '' *Greens:* with greens'' \<and>
   text_segment (Sauces, ''all sauces'') = NL @ sym_sauces @ '' *Sauces:* all sauces''"
proof -
  have d: "decoded_segments full_item = [(Greens, ''with greens''), (Sauces, ''all sauces'')]"
    "decoded_addons (extras full_item) = [(''Cheese'', 1)]"
    "decoded_addons (drinks full_item) = [(''Coke'', 2)]"
    by code_simp+
  note r = option_decoding_shared [of full_item "''with greens''" "''all sauces''"]
  from r [THEN conjunct1] r [THEN conjunct2, THEN conjunct2] d sauces_plain(1)
  show ?thesis by simp
qed

section \<open>Properties of the order composer\<close>

lemma phoneRegex_test_iff:
  "phoneRegex_test s =
     (\<exists>d ds. (s = ''+27'' @ d # ds \<or> s = ''0'' @ d # ds) \<and> d \<in> set ''123456789'' \<and>
        length ds = 8 \<and> list_all is_digit ds)"
  (is "?L = ?R")
proof
  assume l: ?L
  show ?R
  proof (cases "startsWith s ''+27''")
    case True
    then have s: "s = ''+27'' @ drop 3 s"
      by (metis append_take_drop_id startsWith_def length_Cons list.size(3) numeral_3_eq_3)
    from l True obtain d ds where "drop 3 s = d # ds" "d \<in> set ''123456789''" "length ds = 8" "list_all is_digit ds"
      by (auto simp: phoneRegex_test_def split: list.splits)
    with s show ?thesis by metis
  next
    case False
    with l have z: "startsWith s ''0''"
      by (auto simp: phoneRegex_test_def split: if_splits)
    then have s: "s = ''0'' @ drop 1 s"
      by (metis append_take_drop_id startsWith_def length_Cons list.size(3) One_nat_def)
    from l False z obtain d ds where "drop 1 s = d # ds" "d \<in> set ''123456789''" "length ds = 8" "list_all is_digit ds"
      by (auto simp: phoneRegex_test_def split: list.splits)
    with s show ?thesis by metis
  qed
next
  assume ?R
  then obtain d ds where c: "s = ''+27'' @ d # ds \<or> s = ''0'' @ d # ds"
    and d: "d \<in> set ''123456789''" "length ds = 8" "list_all is_digit ds" by blast
  from c show ?L
  proof
    assume "s = ''+27'' @ d # ds"
    then show ?L using d by (simp add: phoneRegex_test_def startsWith_def)
  next
    assume "s = ''0'' @ d # ds"
    then show ?L using d by (simp add: phoneRegex_test_def startsWith_def)
  qed
qed

lemma getCart_frame:
  "ls_item (snd (getCart t s)) = ls_item s"
  "ls_getItem_throws (snd (getCart t s)) = ls_getItem_throws s"
  "ls_setItem_throws (snd (getCart t s)) = ls_setItem_throws s"
  "customer_name (snd (getCart t s)) = customer_name s"
  "customer_phone (snd (getCart t s)) = customer_phone s"
  "special_instructions (snd (getCart t s)) = special_instructions s"
  "opened (snd (getCart t s)) = opened s"
  "count_els (snd (getCart t s)) = count_els s"
  "notifications (snd (getCart t s)) = notifications s"
  by (auto simp: getCart_def console_error_def notifications_def split: sum.splits option.splits)

lemma showNotification_frame:
  "ls_item (showNotification m ty s) = ls_item s"
  "cartCache (showNotification m ty s) = cartCache s"
  "customer_name (showNotification m ty s) = customer_name s"
  "customer_phone (showNotification m ty s) = customer_phone s"
  "special_instructions (showNotification m ty s) = special_instructions s"
  "opened (showNotification m ty s) = opened s"
  by (auto simp: showNotification_def showNextNotification_def Let_def split: list.splits)

lemma showNotification_notifications:
  "notifications s = notifications t \<Longrightarrow>
     notifications (showNotification m ty s) = notifications (showNotification m ty t)"
  by (auto simp: notifications_def showNotification_def showNextNotification_def Let_def
      split: list.splits)

lemma saveCart_frame:
  "ls_getItem_throws (snd (saveCart v t s)) = ls_getItem_throws s"
  "ls_setItem_throws (snd (saveCart v t s)) = ls_setItem_throws s"
  "customer_name (snd (saveCart v t s)) = customer_name s"
  "customer_phone (snd (saveCart v t s)) = customer_phone s"
  "special_instructions (snd (saveCart v t s)) = special_instructions s"
  "opened (snd (saveCart v t s)) = opened s"
  "notifications (snd (saveCart v t s)) = notifications s"
  "orderList (snd (saveCart v t s)) = orderList s"
  by (auto simp: saveCart_def setItem_def console_error_def notifications_def
      split: jsvalue.splits sum.splits)

lemma saveCart_store:
  "ls_item (snd (saveCart (Array c) t s)) =
     (if ls_setItem_throws s then ls_item s else Some (JsonText (Array c)))"
  "cartCache (snd (saveCart (Array c) t s)) =
     (if ls_setItem_throws s then cartCache s else Some c)"
  by (auto simp: saveCart_def setItem_def console_error_def JSON_stringify_def)

lemma updateCartCountImmediate_frame:
  "ls_item (updateCartCountImmediate t s) = ls_item s"
  "customer_name (updateCartCountImmediate t s) = customer_name s"
  "customer_phone (updateCartCountImmediate t s) = customer_phone s"
  "special_instructions (updateCartCountImmediate t s) = special_instructions s"
  "opened (updateCartCountImmediate t s) = opened s"
  "notifications (updateCartCountImmediate t s) = notifications s"
  by (auto simp: updateCartCountImmediate_def getCart_def console_error_def notifications_def
      split: prod.splits sum.splits if_splits option.splits)

text \<open>A read leaves a cache that holds the empty cart as it is, or replaces it by what the
  storage holds.\<close>

lemma getCart_cache:
  "cartCache (snd (getCart t s)) =
     (if cache_fresh t s then cartCache s
      else case readCart s of Inr c \<Rightarrow> Some c | Inl e \<Rightarrow> cartCache s)"
  by (auto simp: getCart_def cache_fresh_def console_error_def split: sum.splits option.splits)

lemma updateCartCountImmediate_cache:
  "cartCache (updateCartCountImmediate t s) = cartCache (snd (getCart t s))"
  by (auto simp: updateCartCountImmediate_def split: prod.splits)

lemma input_value_Some: "input_value x \<noteq> [] \<Longrightarrow> \<exists>v. x = Some v"
  by (cases x) (auto simp: input_value_def)

lemma send_empty:
  assumes "fst (getCart (t_read e) s) = []"
  shows "sendWhatsAppOrder e s =
     (False, showNotification ''Your cart is empty!'' ''error'' (snd (getCart (t_read e) s)))"
  using assms by (cases "getCart (t_read e) s") (simp add: sendWhatsAppOrder_def)

lemma send_not_opened:
  assumes "fst (getCart (t_read e) s) \<noteq> []"
    and "input_value (customer_name s) \<noteq> []"
    and "input_value (customer_phone s) \<noteq> []"
    and "phoneRegex_test (remove_ws (input_value (customer_phone s)))"
    and "open_outcome e \<noteq> Opened"
  shows "sendWhatsAppOrder e s =
     (False, showNotification
        (if open_outcome e = Blocked then ''Please allow pop-ups to send the order''
         else ''Could not open WhatsApp'') ''error'' (snd (getCart (t_read e) s)))"
proof -
  obtain cart s1 where g: "getCart (t_read e) s = (cart, s1)" by (cases "getCart (t_read e) s")
  have f: "customer_name s1 = customer_name s" "customer_phone s1 = customer_phone s"
    using getCart_frame(4,5) [of "t_read e" s] g by simp_all
  show ?thesis using assms g f
    by (cases "open_outcome e") (simp_all add: sendWhatsAppOrder_def Let_def)
qed

lemma send_opened:
  assumes "fst (getCart (t_read e) s) \<noteq> []"
    and "input_value (customer_name s) \<noteq> []"
    and "input_value (customer_phone s) \<noteq> []"
    and "phoneRegex_test (remove_ws (input_value (customer_phone s)))"
    and "open_outcome e = Opened"
  shows "sendWhatsAppOrder e s =
     (let s1 = snd (getCart (t_read e) s);
          message = order_message e (input_value (customer_name s))
                      (remove_ws (input_value (customer_phone s)))
                      (input_value (special_instructions s)) (fst (getCart (t_read e) s));
          s2 = s1\<lparr>opened := opened s1 @ [whatsappUrl message]\<rparr>;
          s3 = snd (saveCart (Array []) (t_save e) s2);
          s4 = updateCartCountImmediate (t_count e) s3
      in (True, showNotification ''Order sent successfully! Check WhatsApp.'' ''success''
                  (s4\<lparr>customer_name := clear_input (customer_name s4),
                      customer_phone := clear_input (customer_phone s4),
                      special_instructions := clear_input (special_instructions s4)\<rparr>)))"
proof -
  obtain cart s1 where g: "getCart (t_read e) s = (cart, s1)" by (cases "getCart (t_read e) s")
  have f: "customer_name s1 = customer_name s" "customer_phone s1 = customer_phone s"
    "special_instructions s1 = special_instructions s"
    using getCart_frame(4,5,6) [of "t_read e" s] g by simp_all
  show ?thesis using assms g f
    by (simp add: sendWhatsAppOrder_def Let_def)
qed

lemma readCart_after_write:
  "ls_item s = Some (JsonText (Array c)) \<Longrightarrow> readCart s = Inr c \<or> (\<exists>e. readCart s = Inl e)"
  by (auto simp: readCart_def getItem_def)

lemma getCart_cache_written:
  assumes "ls_item s = Some (JsonText (Array c))" "cartCache s = Some c"
  shows "cartCache (snd (getCart t s)) = Some c"
  using assms readCart_after_write [OF assms(1)]
  by (auto simp: getCart_cache split: sum.splits)

lemma send_opened_effect:
  assumes "fst (getCart (t_read e) s) \<noteq> []"
    and "input_value (customer_name s) \<noteq> []"
    and "input_value (customer_phone s) \<noteq> []"
    and "phoneRegex_test (remove_ws (input_value (customer_phone s)))"
    and "open_outcome e = Opened"
  shows "fst (sendWhatsAppOrder e s)"
    and "ls_item (snd (sendWhatsAppOrder e s)) =
           (if ls_setItem_throws s then ls_item s else Some (JsonText (Array [])))"
    and "\<not> ls_setItem_throws s \<Longrightarrow> cartCache (snd (sendWhatsAppOrder e s)) = Some []"
    and "customer_name (snd (sendWhatsAppOrder e s)) = Some []"
    and "customer_phone (snd (sendWhatsAppOrder e s)) = Some []"
    and "special_instructions (snd (sendWhatsAppOrder e s)) = clear_input (special_instructions s)"
    and "notifications (snd (sendWhatsAppOrder e s)) =
           notifications (showNotification ''Order sent successfully! Check WhatsApp.'' ''success'' s)"
    and "opened (snd (sendWhatsAppOrder e s)) =
           opened s @ [whatsappUrl (order_message e (input_value (customer_name s))
                      (remove_ws (input_value (customer_phone s)))
                      (input_value (special_instructions s)) (fst (getCart (t_read e) s)))]"
proof -
  define s1 where "s1 = snd (getCart (t_read e) s)"
  define message where "message = order_message e (input_value (customer_name s))
                      (remove_ws (input_value (customer_phone s)))
                      (input_value (special_instructions s)) (fst (getCart (t_read e) s))"
  define s2 where "s2 = s1\<lparr>opened := opened s1 @ [whatsappUrl message]\<rparr>"
  define s3 where "s3 = snd (saveCart (Array []) (t_save e) s2)"
  define s4 where "s4 = updateCartCountImmediate (t_count e) s3"
  define s5 where "s5 = s4\<lparr>customer_name := clear_input (customer_name s4),
                      customer_phone := clear_input (customer_phone s4),
                      special_instructions := clear_input (special_instructions s4)\<rparr>"
  have r: "sendWhatsAppOrder e s =
      (True, showNotification ''Order sent successfully! Check WhatsApp.'' ''success'' s5)"
    using send_opened [OF assms]
    by (simp add: Let_def s1_def message_def s2_def s3_def s4_def s5_def)
  from input_value_Some [OF assms(2)] input_value_Some [OF assms(3)]
  obtain n p where np: "customer_name s = Some n" "customer_phone s = Some p"
    by blast
  have w: "ls_setItem_throws s2 = ls_setItem_throws s"
    by (simp add: s2_def s1_def getCart_frame)
  have i2: "ls_item s2 = ls_item s"
    by (simp add: s2_def s1_def getCart_frame)
  have i3: "ls_item s3 = (if ls_setItem_throws s then ls_item s else Some (JsonText (Array [])))"
    by (simp add: s3_def saveCart_store w i2)
  have c3: "\<not> ls_setItem_throws s \<Longrightarrow> cartCache s3 = Some []"
    by (simp add: s3_def saveCart_store w)
  have c4: "\<not> ls_setItem_throws s \<Longrightarrow> cartCache s4 = Some []"
    using getCart_cache_written [of s3 "[]" "t_count e"] i3 c3
    by (simp add: s4_def updateCartCountImmediate_cache)
  have f4: "customer_name s4 = customer_name s" "customer_phone s4 = customer_phone s"
    "special_instructions s4 = special_instructions s"
    "opened s4 = opened s @ [whatsappUrl message]" "ls_item s4 = ls_item s3"
    by (simp_all add: s4_def s3_def s2_def s1_def updateCartCountImmediate_frame saveCart_frame
        getCart_frame)
  have n4: "notifications s5 = notifications s"
    by (simp add: s5_def s4_def s3_def s2_def s1_def notifications_def
        updateCartCountImmediate_frame(6) [unfolded notifications_def]
        saveCart_frame(7) [unfolded notifications_def]
        getCart_frame(9) [unfolded notifications_def])
  show "fst (sendWhatsAppOrder e s)" by (simp add: r)
  show "ls_item (snd (sendWhatsAppOrder e s)) =
           (if ls_setItem_throws s then ls_item s else Some (JsonText (Array [])))"
    by (simp add: r showNotification_frame s5_def f4 i3)
  show "\<not> ls_setItem_throws s \<Longrightarrow> cartCache (snd (sendWhatsAppOrder e s)) = Some []"
    by (simp add: r showNotification_frame s5_def c4)
  show "customer_name (snd (sendWhatsAppOrder e s)) = Some []"
    by (simp add: r showNotification_frame s5_def f4 np clear_input_def)
  show "customer_phone (snd (sendWhatsAppOrder e s)) = Some []"
    by (simp add: r showNotification_frame s5_def f4 np clear_input_def)
  show "special_instructions (snd (sendWhatsAppOrder e s)) = clear_input (special_instructions s)"
    by (simp add: r showNotification_frame s5_def f4)
  show "notifications (snd (sendWhatsAppOrder e s)) =
           notifications (showNotification ''Order sent successfully! Check WhatsApp.'' ''success'' s)"
    using showNotification_notifications [OF n4] by (simp add: r)
  show "opened (snd (sendWhatsAppOrder e s)) =
           opened s @ [whatsappUrl (order_message e (input_value (customer_name s))
                      (remove_ws (input_value (customer_phone s)))
                      (input_value (special_instructions s)) (fst (getCart (t_read e) s)))]"
    by (simp add: r showNotification_frame s5_def f4 message_def)
qed

lemma scenario_page_valid:
  "fst (getCart 5000 (page_with [scenario_item])) \<noteq> []"
  "input_value (customer_name (page_with [scenario_item])) \<noteq> []"
  "input_value (customer_phone (page_with [scenario_item])) \<noteq> []"
  "phoneRegex_test (remove_ws (input_value (customer_phone (page_with [scenario_item]))))"
  by code_simp+

lemma readonly_page_valid:
  "fst (getCart 5000 readonly_page) \<noteq> []"
  "input_value (customer_name readonly_page) \<noteq> []"
  "input_value (customer_phone readonly_page) \<noteq> []"
  "phoneRegex_test (remove_ws (input_value (customer_phone readonly_page)))"
  by code_simp+

text \<open>What \<^verbatim>\<open>showNotification\<close> does to the queue: while a notification is showing the
  new one is appended to the queue; on a page with none showing and none queued it is shown
  at once, in an element of its kind, and its timer is started.\<close>

lemma showNotification_busy:
  "notificationShowing s \<Longrightarrow>
     notifications (showNotification m ty s) =
       (notificationQueue s @ [(m, ty)], True, notification_el s, timers s)"
  by (simp add: notifications_def showNotification_def)

lemma showNotification_idle:
  "\<not> notificationShowing s \<Longrightarrow> notificationQueue s = [] \<Longrightarrow>
     notifications (showNotification m ty s) =
       ([], True,
        Some (''notification notification-'' @ ty,
              ''fas '' @ (if ty = ''success'' then ''fa-check-circle''
                          else if ty = ''error'' then ''fa-exclamation-circle''
                          else ''fa-info-circle''),
              remove_chars angle_chars m),
        timers s @ [NotificationTimer])"
  by (simp add: notifications_def showNotification_def showNextNotification_def Let_def)

lemma plain_messages:
  "remove_chars angle_chars ''Your cart is empty!'' = ''Your cart is empty!''"
  "remove_chars angle_chars ''Please allow pop-ups to send the order'' =
     ''Please allow pop-ups to send the order''"
  "remove_chars angle_chars ''Could not open WhatsApp'' = ''Could not open WhatsApp''"
  "remove_chars angle_chars ''Order sent successfully! Check WhatsApp.'' =
     ''Order sent successfully! Check WhatsApp.''"
  by (simp_all add: remove_chars_def angle_chars_def)

lemma busy_page_valid:
  "fst (getCart 5000 busy_page) \<noteq> []"
  "input_value (customer_name busy_page) \<noteq> []"
  "input_value (customer_phone busy_page) \<noteq> []"
  "phoneRegex_test (remove_ws (input_value (customer_phone busy_page)))"
  by code_simp+

text \<open>
  C2. In \<^verbatim>\<open>sendWhatsAppOrder\<close>, with a cart that is not empty and a name and a phone that
  are not empty after trimming, the phone with all white space removed passes the test exactly
  when it is \<^verbatim>\<open>+27\<close> or \<^verbatim>\<open>0\<close>, then a digit from 1 to 9, then 8 digits: otherwise the
  call returns false with the notification of an invalid phone number, and when it passes the
  call goes on to open the link. \<^verbatim>\<open>0821234567\<close> passes, \<^verbatim>\<open>+27821234567\<close> passes and is
  displayed as \<^verbatim>\<open>0821234567\<close>, \<^verbatim>\<open>123\<close> and \<^verbatim>\<open>08212345\<close> fail.
\<close>

theorem phone_validation:
  assumes "fst (getCart (t_read e) s) \<noteq> []"
    and "input_value (customer_name s) \<noteq> []"
    and "input_value (customer_phone s) \<noteq> []"
    and "cleanedPhone = remove_ws (input_value (customer_phone s))"
  shows "phoneRegex_test cleanedPhone =
           (\<exists>d ds. (cleanedPhone = ''+27'' @ d # ds \<or> cleanedPhone = ''0'' @ d # ds) \<and>
              d \<in> set ''123456789'' \<and> length ds = 8 \<and> list_all is_digit ds) \<and>
         (\<not> phoneRegex_test cleanedPhone \<longrightarrow>
            sendWhatsAppOrder e s =
              (False, showNotification ''Please enter a valid South African phone number'' ''error''
                        (snd (getCart (t_read e) s)))) \<and>
         (phoneRegex_test cleanedPhone \<and> open_outcome e = Opened \<longrightarrow> fst (sendWhatsAppOrder e s)) \<and>
         phoneRegex_test (remove_ws (input_value (Some ''0821234567''))) \<and>
         phoneRegex_test (remove_ws (input_value (Some ''+27821234567''))) \<and>
         displayPhone (remove_ws (input_value (Some ''+27821234567''))) = ''0821234567'' \<and>
         \<not> phoneRegex_test (remove_ws (input_value (Some ''123''))) \<and>
         \<not> phoneRegex_test (remove_ws (input_value (Some ''08212345'')))"
proof (intro conjI impI)
  show "phoneRegex_test cleanedPhone =
           (\<exists>d ds. (cleanedPhone = ''+27'' @ d # ds \<or> cleanedPhone = ''0'' @ d # ds) \<and>
              d \<in> set ''123456789'' \<and> length ds = 8 \<and> list_all is_digit ds)"
    by (rule phoneRegex_test_iff)
next
  assume n: "\<not> phoneRegex_test cleanedPhone"
  obtain cart s1 where g: "getCart (t_read e) s = (cart, s1)" by (cases "getCart (t_read e) s")
  have f: "customer_name s1 = customer_name s" "customer_phone s1 = customer_phone s"
    using getCart_frame(4,5) [of "t_read e" s] g by simp_all
  show "sendWhatsAppOrder e s =
              (False, showNotification ''Please enter a valid South African phone number'' ''error''
                        (snd (getCart (t_read e) s)))"
    using assms n g f by (simp add: sendWhatsAppOrder_def Let_def)
next
  assume "phoneRegex_test cleanedPhone \<and> open_outcome e = Opened"
  then show "fst (sendWhatsAppOrder e s)"
    using send_opened_effect(1) [OF assms(1,2,3)] assms(4) by simp
next
  show "phoneRegex_test (remove_ws (input_value (Some ''0821234567'')))"
    by code_simp
  show "phoneRegex_test (remove_ws (input_value (Some ''+27821234567'')))"
    by code_simp
  show "displayPhone (remove_ws (input_value (Some ''+27821234567''))) = ''0821234567''"
    by code_simp
  show "\<not> phoneRegex_test (remove_ws (input_value (Some ''123'')))"
    by code_simp
  show "\<not> phoneRegex_test (remove_ws (input_value (Some ''08212345'')))"
    by code_simp
qed

text \<open>The theorem for C2 on the page with the scenario cart, whose phone field holds
  \<^verbatim>\<open>082 123 4567\<close>.\<close>

theorem phone_validation_witness:
  "fst (getCart 5000 (page_with [scenario_item])) \<noteq> [] \<and>
   input_value (customer_name (page_with [scenario_item])) \<noteq> [] \<and>
   input_value (customer_phone (page_with [scenario_item])) \<noteq> [] \<and>
   remove_ws (input_value (customer_phone (page_with [scenario_item]))) = ''0821234567'' \<and>
   phoneRegex_test ''0821234567'' \<and>
   open_outcome example_env = Opened \<and>
   fst (sendWhatsAppOrder example_env (page_with [scenario_item]))"
proof -
  have t: "t_read example_env = 5000" and o: "open_outcome example_env = Opened"
    by (simp_all add: example_env_def)
  have c: "''0821234567'' = remove_ws (input_value (customer_phone (page_with [scenario_item])))"
    by code_simp
  have p: "phoneRegex_test ''0821234567''"
    by code_simp
  note r = phone_validation [of example_env "page_with [scenario_item]" "''0821234567''",
      unfolded t, OF scenario_page_valid(1,2,3) c]
  from r [THEN conjunct2, THEN conjunct2, THEN conjunct1] p o
  have "fst (sendWhatsAppOrder example_env (page_with [scenario_item]))" by simp
  with scenario_page_valid(1,2,3) c p o show ?thesis by simp
qed

text \<open>
  C3. With a cart that is not empty and valid contact fields, when \<^verbatim>\<open>window.open\<close>
  returns nothing or throws, \<^verbatim>\<open>sendWhatsAppOrder\<close> returns false and enqueues an error
  notification: it is appended to the queue while a notification is showing, and shown at
  once, as an element of the error kind with its text, on a page with none showing and none
  queued. The stored cart, the three input fields and the list of opened links are as before
  the call.
\<close>

theorem send_open_failure:
  assumes "fst (getCart (t_read e) s) \<noteq> []"
    and "input_value (customer_name s) \<noteq> []"
    and "input_value (customer_phone s) \<noteq> []"
    and "phoneRegex_test (remove_ws (input_value (customer_phone s)))"
    and "open_outcome e \<noteq> Opened"
    and "msg = (if open_outcome e = Blocked then ''Please allow pop-ups to send the order''
                else ''Could not open WhatsApp'')"
  shows "sendWhatsAppOrder e s =
           (False, showNotification msg ''error'' (snd (getCart (t_read e) s))) \<and>
         (notificationShowing s \<longrightarrow>
            notifications (snd (sendWhatsAppOrder e s)) =
              (notificationQueue s @ [(msg, ''error'')], True, notification_el s, timers s)) \<and>
         (\<not> notificationShowing s \<and> notificationQueue s = [] \<longrightarrow>
            notifications (snd (sendWhatsAppOrder e s)) =
              ([], True,
               Some (''notification notification-error'', ''fas fa-exclamation-circle'', msg),
               timers s @ [NotificationTimer])) \<and>
         ls_item (snd (sendWhatsAppOrder e s)) = ls_item s \<and>
         customer_name (snd (sendWhatsAppOrder e s)) = customer_name s \<and>
         customer_phone (snd (sendWhatsAppOrder e s)) = customer_phone s \<and>
         special_instructions (snd (sendWhatsAppOrder e s)) = special_instructions s \<and>
         opened (snd (sendWhatsAppOrder e s)) = opened s"
proof -
  have r: "sendWhatsAppOrder e s =
           (False, showNotification msg ''error'' (snd (getCart (t_read e) s)))"
    using send_not_opened [OF assms(1-5)] assms(6) by simp
  have n: "notifications (snd (sendWhatsAppOrder e s)) =
           notifications (showNotification msg ''error'' s)"
    using showNotification_notifications [OF getCart_frame(9)] by (simp add: r)
  have p: "remove_chars angle_chars msg = msg"
    using assms(6) by (simp add: plain_messages)
  have b: "notificationShowing s \<longrightarrow>
            notifications (snd (sendWhatsAppOrder e s)) =
              (notificationQueue s @ [(msg, ''error'')], True, notification_el s, timers s)"
    by (simp add: n showNotification_busy)
  have i: "\<not> notificationShowing s \<and> notificationQueue s = [] \<longrightarrow>
            notifications (snd (sendWhatsAppOrder e s)) =
              ([], True,
               Some (''notification notification-error'', ''fas fa-exclamation-circle'', msg),
               timers s @ [NotificationTimer])"
    by (simp add: n showNotification_idle p)
  have f: "ls_item (snd (sendWhatsAppOrder e s)) = ls_item s"
    "customer_name (snd (sendWhatsAppOrder e s)) = customer_name s"
    "customer_phone (snd (sendWhatsAppOrder e s)) = customer_phone s"
    "special_instructions (snd (sendWhatsAppOrder e s)) = special_instructions s"
    "opened (snd (sendWhatsAppOrder e s)) = opened s"
    by (simp_all add: r showNotification_frame getCart_frame)
  from r b i f show ?thesis by blast
qed

text \<open>The theorem for C3 with pop-ups blocked: on the page with the scenario cart, where
  the notification is shown at once, and on the same page while a notification is showing,
  where it is queued.\<close>

theorem send_open_failure_witness:
  "fst (getCart 5000 (page_with [scenario_item])) \<noteq> [] \<and>
   open_outcome (example_env\<lparr>open_outcome := Blocked\<rparr>) \<noteq> Opened \<and>
   \<not> fst (sendWhatsAppOrder (example_env\<lparr>open_outcome := Blocked\<rparr>) (page_with [scenario_item])) \<and>
   notifications (snd (sendWhatsAppOrder (example_env\<lparr>open_outcome := Blocked\<rparr>) (page_with [scenario_item]))) =
     ([], True,
      Some (''notification notification-error'', ''fas fa-exclamation-circle'',
            ''Please allow pop-ups to send the order''),
      [NotificationTimer]) \<and>
   ls_item (snd (sendWhatsAppOrder (example_env\<lparr>open_outcome := Blocked\<rparr>) (page_with [scenario_item])))
     = Some (JsonText (Array [scenario_item])) \<and>
   customer_name (snd (sendWhatsAppOrder (example_env\<lparr>open_outcome := Blocked\<rparr>) (page_with [scenario_item])))
     = Some ''Thabo'' \<and>
   notificationShowing busy_page \<and>
   notificationQueue (snd (sendWhatsAppOrder (example_env\<lparr>open_outcome := Blocked\<rparr>) busy_page)) =
     [(''Please allow pop-ups to send the order'', ''error'')]"
proof -
  have t: "t_read (example_env\<lparr>open_outcome := Blocked\<rparr>) = 5000"
    by (simp add: example_env_def)
  have o: "open_outcome (example_env\<lparr>open_outcome := Blocked\<rparr>) \<noteq> Opened"
    by simp
  have m: "''Please allow pop-ups to send the order'' =
      (if open_outcome (example_env\<lparr>open_outcome := Blocked\<rparr>) = Blocked
       then ''Please allow pop-ups to send the order'' else ''Could not open WhatsApp'')"
    by simp
  have v: "ls_item (page_with [scenario_item]) = Some (JsonText (Array [scenario_item]))"
    "customer_name (page_with [scenario_item]) = Some ''Thabo''"
    "\<not> notificationShowing (page_with [scenario_item])"
    "notificationQueue (page_with [scenario_item]) = []"
    "timers (page_with [scenario_item]) = []"
    by (simp_all add: page_with_def blank_page_def)
  have w: "notificationShowing busy_page" "notificationQueue busy_page = []"
    by (simp_all add: busy_page_def page_with_def blank_page_def)
  note r = send_open_failure [of "example_env\<lparr>open_outcome := Blocked\<rparr>" "page_with [scenario_item]",
      unfolded t, OF scenario_page_valid o m]
  note q = send_open_failure [of "example_env\<lparr>open_outcome := Blocked\<rparr>" busy_page,
      unfolded t, OF busy_page_valid o m]
  from r [THEN conjunct1] have f: "\<not> fst (sendWhatsAppOrder (example_env\<lparr>open_outcome := Blocked\<rparr>) (page_with [scenario_item]))"
    by simp
  from q [THEN conjunct2, THEN conjunct1] w
  have g: "notificationQueue (snd (sendWhatsAppOrder (example_env\<lparr>open_outcome := Blocked\<rparr>) busy_page)) =
     [(''Please allow pop-ups to send the order'', ''error'')]"
    by (simp add: notifications_def)
  from r [THEN conjunct2] f g o v w scenario_page_valid(1) show ?thesis by simp
qed

text \<open>
  C4 as stated fails when the storage refuses the write: the link is opened, the fields are
  cleared, the call returns true, and the stored cart still holds its entry.
\<close>

theorem send_readonly_counterexample:
  "open_outcome example_env = Opened \<and>
   fst (sendWhatsAppOrder example_env readonly_page) \<and>
   ls_item (snd (sendWhatsAppOrder example_env readonly_page)) = Some (JsonText (Array [scenario_item]))"
proof -
  have t: "t_read example_env = 5000" and o: "open_outcome example_env = Opened"
    by (simp_all add: example_env_def)
  have v: "ls_setItem_throws readonly_page"
    "ls_item readonly_page = Some (JsonText (Array [scenario_item]))"
    by (simp_all add: readonly_page_def page_with_def blank_page_def)
  note r = send_opened_effect(1,2) [of example_env readonly_page, unfolded t, OF readonly_page_valid o]
  from r o v show ?thesis by simp
qed

text \<open>
  C4, amended. Whenever \<^verbatim>\<open>sendWhatsAppOrder\<close> succeeds (the link is opened), it calls
  \<^verbatim>\<open>saveCart([])\<close>, which leaves the empty list in the cart store and in the cache when the
  storage write does not throw and leaves the stored cart as it was when it throws; it sets
  the name and phone fields and, when the page has one, the instructions field to the empty
  string, returns true and enqueues a success notification: it is appended to the queue while
  a notification is showing, and shown at once, as an element of the success kind with its
  text, on a page with none showing and none queued.
\<close>

theorem send_success:
  assumes "fst (getCart (t_read e) s) \<noteq> []"
    and "input_value (customer_name s) \<noteq> []"
    and "input_value (customer_phone s) \<noteq> []"
    and "phoneRegex_test (remove_ws (input_value (customer_phone s)))"
    and "open_outcome e = Opened"
  shows "fst (sendWhatsAppOrder e s) \<and>
         ls_item (snd (sendWhatsAppOrder e s)) =
           (if ls_setItem_throws s then ls_item s else Some (JsonText (Array []))) \<and>
         (\<not> ls_setItem_throws s \<longrightarrow> cartCache (snd (sendWhatsAppOrder e s)) = Some []) \<and>
         customer_name (snd (sendWhatsAppOrder e s)) = Some [] \<and>
         customer_phone (snd (sendWhatsAppOrder e s)) = Some [] \<and>
         special_instructions (snd (sendWhatsAppOrder e s)) = clear_input (special_instructions s) \<and>
         notifications (snd (sendWhatsAppOrder e s)) =
           notifications (showNotification ''Order sent successfully! Check WhatsApp.'' ''success'' s) \<and>
         (notificationShowing s \<longrightarrow>
            notifications (snd (sendWhatsAppOrder e s)) =
              (notificationQueue s @ [(''Order sent successfully! Check WhatsApp.'', ''success'')],
               True, notification_el s, timers s)) \<and>
         (\<not> notificationShowing s \<and> notificationQueue s = [] \<longrightarrow>
            notifications (snd (sendWhatsAppOrder e s)) =
              ([], True,
               Some (''notification notification-success'', ''fas fa-check-circle'',
                     ''Order sent successfully! Check WhatsApp.''),
               timers s @ [NotificationTimer]))"
proof -
  note r = send_opened_effect [OF assms]
  have b: "notificationShowing s \<longrightarrow>
            notifications (snd (sendWhatsAppOrder e s)) =
              (notificationQueue s @ [(''Order sent successfully! Check WhatsApp.'', ''success'')],
               True, notification_el s, timers s)"
    by (simp add: r(7) showNotification_busy)
  have i: "\<not> notificationShowing s \<and> notificationQueue s = [] \<longrightarrow>
            notifications (snd (sendWhatsAppOrder e s)) =
              ([], True,
               Some (''notification notification-success'', ''fas fa-check-circle'',
                     ''Order sent successfully! Check WhatsApp.''),
               timers s @ [NotificationTimer])"
    by (simp add: r(7) showNotification_idle plain_messages)
  from r(1-7) b i show ?thesis by simp
qed

text \<open>The theorem for C4 on the page with the scenario cart, where the notification is
  shown at once.\<close>

theorem send_success_witness:
  "fst (getCart 5000 (page_with [scenario_item])) \<noteq> [] \<and>
   open_outcome example_env = Opened \<and>
   \<not> ls_setItem_throws (page_with [scenario_item]) \<and>
   fst (sendWhatsAppOrder example_env (page_with [scenario_item])) \<and>
   ls_item (snd (sendWhatsAppOrder example_env (page_with [scenario_item]))) = Some (JsonText (Array [])) \<and>
   customer_name (snd (sendWhatsAppOrder example_env (page_with [scenario_item]))) = Some [] \<and>
   customer_phone (snd (sendWhatsAppOrder example_env (page_with [scenario_item]))) = Some [] \<and>
   special_instructions (snd (sendWhatsAppOrder example_env (page_with [scenario_item]))) = Some [] \<and>
   notifications (snd (sendWhatsAppOrder example_env (page_with [scenario_item]))) =
     ([], True,
      Some (''notification notification-success'', ''fas fa-check-circle'',
            ''Order sent successfully! Check WhatsApp.''),
      [NotificationTimer])"
proof -
  have t: "t_read example_env = 5000" and o: "open_outcome example_env = Opened"
    by (simp_all add: example_env_def)
  have v: "\<not> ls_setItem_throws (page_with [scenario_item])"
    "special_instructions (page_with [scenario_item]) = Some ''no onions''"
    "\<not> notificationShowing (page_with [scenario_item])"
    "notificationQueue (page_with [scenario_item]) = []"
    "timers (page_with [scenario_item]) = []"
    by (simp_all add: page_with_def blank_page_def)
  note r = send_success [of example_env "page_with [scenario_item]", unfolded t, OF scenario_page_valid o]
  from r o v scenario_page_valid(1) show ?thesis
    by (simp add: clear_input_def showNotification_idle plain_messages)
qed

text \<open>
  C5. When the cart read at the start is empty, \<^verbatim>\<open>sendWhatsAppOrder\<close> returns false and
  enqueues an error notification: it is appended to the queue while a notification is showing,
  and shown at once, as an element of the error kind with its text, on a page with none
  showing and none queued. No link is opened, and the input fields and the stored cart are as
  before the call.
\<close>

theorem send_empty_cart:
  assumes "fst (getCart (t_read e) s) = []"
  shows "sendWhatsAppOrder e s =
           (False, showNotification ''Your cart is empty!'' ''error'' (snd (getCart (t_read e) s))) \<and>
         (notificationShowing s \<longrightarrow>
            notifications (snd (sendWhatsAppOrder e s)) =
              (notificationQueue s @ [(''Your cart is empty!'', ''error'')], True,
               notification_el s, timers s)) \<and>
         (\<not> notificationShowing s \<and> notificationQueue s = [] \<longrightarrow>
            notifications (snd (sendWhatsAppOrder e s)) =
              ([], True,
               Some (''notification notification-error'', ''fas fa-exclamation-circle'',
                     ''Your cart is empty!''),
               timers s @ [NotificationTimer])) \<and>
         opened (snd (sendWhatsAppOrder e s)) = opened s \<and>
         customer_name (snd (sendWhatsAppOrder e s)) = customer_name s \<and>
         customer_phone (snd (sendWhatsAppOrder e s)) = customer_phone s \<and>
         special_instructions (snd (sendWhatsAppOrder e s)) = special_instructions s \<and>
         ls_item (snd (sendWhatsAppOrder e s)) = ls_item s"
proof -
  note r = send_empty [OF assms]
  have n: "notifications (snd (sendWhatsAppOrder e s)) =
           notifications (showNotification ''Your cart is empty!'' ''error'' s)"
    using showNotification_notifications [OF getCart_frame(9)] by (simp add: r)
  have b: "notificationShowing s \<longrightarrow>
            notifications (snd (sendWhatsAppOrder e s)) =
              (notificationQueue s @ [(''Your cart is empty!'', ''error'')], True,
               notification_el s, timers s)"
    by (simp add: n showNotification_busy)
  have i: "\<not> notificationShowing s \<and> notificationQueue s = [] \<longrightarrow>
            notifications (snd (sendWhatsAppOrder e s)) =
              ([], True,
               Some (''notification notification-error'', ''fas fa-exclamation-circle'',
                     ''Your cart is empty!''),
               timers s @ [NotificationTimer])"
    by (simp add: n showNotification_idle plain_messages)
  have f: "opened (snd (sendWhatsAppOrder e s)) = opened s"
    "customer_name (snd (sendWhatsAppOrder e s)) = customer_name s"
    "customer_phone (snd (sendWhatsAppOrder e s)) = customer_phone s"
    "special_instructions (snd (sendWhatsAppOrder e s)) = special_instructions s"
    "ls_item (snd (sendWhatsAppOrder e s)) = ls_item s"
    by (simp_all add: r showNotification_frame getCart_frame)
  from r b i f show ?thesis by blast
qed

text \<open>The theorem for C5 on a page whose stored cart is the empty list, where the
  notification is shown at once.\<close>

theorem send_empty_cart_witness:
  "fst (getCart 5000 (page_with [])) = [] \<and>
   \<not> fst (sendWhatsAppOrder example_env (page_with [])) \<and>
   notifications (snd (sendWhatsAppOrder example_env (page_with []))) =
     ([], True,
      Some (''notification notification-error'', ''fas fa-exclamation-circle'', ''Your cart is empty!''),
      [NotificationTimer]) \<and>
   opened (snd (sendWhatsAppOrder example_env (page_with []))) = [] \<and>
   customer_name (snd (sendWhatsAppOrder example_env (page_with []))) = Some ''Thabo'' \<and>
   ls_item (snd (sendWhatsAppOrder example_env (page_with []))) = Some (JsonText (Array []))"
proof -
  have t: "t_read example_env = 5000"
    by (simp add: example_env_def)
  have h: "fst (getCart 5000 (page_with [])) = []"
    by code_simp
  have v: "opened (page_with []) = []" "customer_name (page_with []) = Some ''Thabo''"
    "ls_item (page_with []) = Some (JsonText (Array []))"
    "\<not> notificationShowing (page_with [])" "notificationQueue (page_with []) = []"
    "timers (page_with []) = []"
    by (simp_all add: page_with_def blank_page_def)
  note r = send_empty_cart [of example_env "page_with []", unfolded t, OF h]
  from r [THEN conjunct1] have f: "\<not> fst (sendWhatsAppOrder example_env (page_with []))"
    by simp
  from r [THEN conjunct2] f h v show ?thesis by simp
qed

section \<open>Properties of the remove button\<close>

lemma getCart_lists:
  "orderList (snd (getCart t s)) = orderList s"
  "orderList_listeners (snd (getCart t s)) = orderList_listeners s"
  by (auto simp: getCart_def console_error_def split: sum.splits option.splits)

lemma getCart_stored:
  assumes "ls_item s = Some (JsonText (Array c))" "\<not> ls_getItem_throws s"
    and "cartCache s = None \<or> cartCache s = Some c"
  shows "fst (getCart t s) = c" "cartCache (snd (getCart t s)) = Some c"
  using assms
  by (auto simp: getCart_def readCart_def getItem_def cache_fresh_def split: option.splits)

lemma updateCartDisplay_frame:
  "ls_item (updateCartDisplay t s) = ls_item s"
  "ls_getItem_throws (updateCartDisplay t s) = ls_getItem_throws s"
  "ls_setItem_throws (updateCartDisplay t s) = ls_setItem_throws s"
  "cartCache (updateCartDisplay t s) = cartCache (snd (getCart t s))"
  by (simp_all add: updateCartDisplay_def Let_def case_prod_beta getCart_frame
      split: option.splits)

lemma updateCartDisplay_listeners:
  assumes "orderList s = Some ol"
  shows "orderList_listeners (updateCartDisplay t s) = Suc (orderList_listeners s)"
    and "\<exists>ol'. orderList (updateCartDisplay t s) = Some ol'"
  using assms
  by (simp_all add: updateCartDisplay_def Let_def case_prod_beta getCart_lists)

lemma updateCartCount_frame:
  "ls_item (updateCartCount s) = ls_item s"
  "ls_getItem_throws (updateCartCount s) = ls_getItem_throws s"
  "ls_setItem_throws (updateCartCount s) = ls_setItem_throws s"
  "cartCache (updateCartCount s) = cartCache s"
  "orderList (updateCartCount s) = orderList s"
  "orderList_listeners (updateCartCount s) = orderList_listeners s"
  "pendingUpdate (updateCartCount s) = (pendingUpdate s \<or> updateTimeout s)"
  by (auto simp: updateCartCount_def)

lemma countTimerFired_idle:
  "\<not> pendingUpdate s \<Longrightarrow> countTimerFired t s = s\<lparr>updateTimeout := False\<rparr>"
  by (simp add: countTimerFired_def)

lemma removeItemHandler_in_range:
  assumes "target_is_remove_item ev"
    and "parseInt_str (Some 10) (case target_data_index ev of None \<Rightarrow> ''undefined'' | Some d \<Rightarrow> d) = Some k"
    and "0 \<le> k" "k < int (length (fst (getCart t1 s)))"
  shows "removeItemHandler ev t1 t2 t3 s =
     (let cart' = splice1 (nat k) (fst (getCart t1 s));
          s2 = (snd (getCart t1 s))\<lparr>cartCache := Some cart'\<rparr>;
          s3 = snd (saveCart (Array cart') t2 s2)
      in updateCartCount (updateCartDisplay t3 s3))"
  using assms by (cases "getCart t1 s") (simp add: removeItemHandler_def Let_def)

text \<open>One run of the listener on a page whose storage works and whose cache, if any, is the
  stored cart.\<close>

lemma removeItemHandler_stored:
  assumes "target_is_remove_item ev"
    and "parseInt_str (Some 10) (case target_data_index ev of None \<Rightarrow> ''undefined'' | Some d \<Rightarrow> d) = Some k"
    and "ls_item s = Some (JsonText (Array c))"
    and "\<not> ls_getItem_throws s" "\<not> ls_setItem_throws s"
    and "cartCache s = None \<or> cartCache s = Some c"
    and "0 \<le> k" "k < int (length c)"
  shows "ls_item (removeItemHandler ev t1 t2 t3 s) = Some (JsonText (Array (splice1 (nat k) c)))"
    and "\<not> ls_getItem_throws (removeItemHandler ev t1 t2 t3 s)"
    and "\<not> ls_setItem_throws (removeItemHandler ev t1 t2 t3 s)"
    and "cartCache (removeItemHandler ev t1 t2 t3 s) = Some (splice1 (nat k) c)"
proof -
  have g: "fst (getCart t1 s) = c"
    by (rule getCart_stored(1) [OF assms(3,4,6)])
  define cart' where "cart' = splice1 (nat k) c"
  define s2 where "s2 = (snd (getCart t1 s))\<lparr>cartCache := Some cart'\<rparr>"
  define s3 where "s3 = snd (saveCart (Array cart') t2 s2)"
  have r: "removeItemHandler ev t1 t2 t3 s = updateCartCount (updateCartDisplay t3 s3)"
    using removeItemHandler_in_range [OF assms(1,2,7), of t1 s t2 t3] assms(8)
    by (simp add: g Let_def cart'_def s2_def s3_def)
  have w: "\<not> ls_setItem_throws s2" "\<not> ls_getItem_throws s2"
    using assms(4,5) by (simp_all add: s2_def getCart_frame)
  have i3: "ls_item s3 = Some (JsonText (Array cart'))"
    using w by (simp add: s3_def saveCart_store)
  have c3: "cartCache s3 = Some cart'"
    using w by (simp add: s3_def saveCart_store)
  have f3: "\<not> ls_getItem_throws s3" "\<not> ls_setItem_throws s3"
    using w by (simp_all add: s3_def saveCart_frame)
  show "ls_item (removeItemHandler ev t1 t2 t3 s) = Some (JsonText (Array (splice1 (nat k) c)))"
    by (simp add: r updateCartCount_frame updateCartDisplay_frame i3 cart'_def)
  show "\<not> ls_getItem_throws (removeItemHandler ev t1 t2 t3 s)"
    using f3 by (simp add: r updateCartCount_frame updateCartDisplay_frame)
  show "\<not> ls_setItem_throws (removeItemHandler ev t1 t2 t3 s)"
    using f3 by (simp add: r updateCartCount_frame updateCartDisplay_frame)
  show "cartCache (removeItemHandler ev t1 t2 t3 s) = Some (splice1 (nat k) c)"
    using getCart_stored(2) [OF i3 f3(1), of t3] c3
    by (simp add: r updateCartCount_frame updateCartDisplay_frame cart'_def)
qed

lemma splice1_twice:
  "Suc k < length xs \<Longrightarrow> splice1 k (splice1 k xs) = take k xs @ drop (k + 2) xs"
  by (simp add: splice1_def min_def)

lemma dispatch_click_two:
  assumes "orderList_listeners s = 2" "clock 0 = (t1, t2, t3)" "clock 1 = (u1, u2, u3)"
  shows "dispatch_click ev clock s =
           removeItemHandler ev u1 u2 u3 (removeItemHandler ev t1 t2 t3 s)"
  using assms by (simp add: dispatch_click_def numeral_2_eq_2)

lemma click_first_index:
  "target_is_remove_item click_first"
  "parseInt_str (Some 10) (case target_data_index click_first of None \<Rightarrow> ''undefined'' | Some d \<Rightarrow> d) = Some 0"
  by code_simp+

text \<open>The main page after loading with three entries stored and after the cart was opened:
  two listeners are on the list.\<close>

lemma opened_cart_page_facts:
  "ls_item opened_cart_page = Some (JsonText (Array [scenario_item, zero_quantity_item, full_item]))"
  "\<not> ls_getItem_throws opened_cart_page"
  "\<not> ls_setItem_throws opened_cart_page"
  "cartCache opened_cart_page = Some [scenario_item, zero_quantity_item, full_item]"
  "orderList_listeners opened_cart_page = 2"
proof -
  define p1 where "p1 = updateCartCount three_item_page"
  define p2 where "p2 = updateCartDisplay 1000 p1"
  define p3 where "p3 = countTimerFired 1050 p2"
  have o: "opened_cart_page = updateCartDisplay 2000 p3"
    by (simp add: opened_cart_page_def p1_def p2_def p3_def)
  have v0: "ls_item three_item_page = Some (JsonText (Array [scenario_item, zero_quantity_item, full_item]))"
    "\<not> ls_getItem_throws three_item_page" "\<not> ls_setItem_throws three_item_page"
    "cartCache three_item_page = None" "orderList three_item_page = Some []"
    "orderList_listeners three_item_page = 0" "\<not> pendingUpdate three_item_page"
    "\<not> updateTimeout three_item_page"
    by (simp_all add: three_item_page_def page_with_def blank_page_def)
  have v1: "ls_item p1 = Some (JsonText (Array [scenario_item, zero_quantity_item, full_item]))"
    "\<not> ls_getItem_throws p1" "\<not> ls_setItem_throws p1"
    "cartCache p1 = None" "orderList p1 = Some []"
    "orderList_listeners p1 = 0" "\<not> pendingUpdate p1"
    using v0 by (simp_all add: p1_def updateCartCount_frame)
  have c1: "cartCache p1 = None \<or> cartCache p1 = Some [scenario_item, zero_quantity_item, full_item]"
    using v1(4) by simp
  have v2: "ls_item p2 = Some (JsonText (Array [scenario_item, zero_quantity_item, full_item]))"
    "\<not> ls_getItem_throws p2" "\<not> ls_setItem_throws p2"
    "cartCache p2 = Some [scenario_item, zero_quantity_item, full_item]"
    "orderList_listeners p2 = 1"
    using v1 getCart_stored(2) [OF v1(1,2) c1, of 1000] updateCartDisplay_listeners(1) [OF v1(5), of 1000]
    by (simp_all add: p2_def updateCartDisplay_frame)
  obtain ol where l2: "orderList p2 = Some ol"
    using updateCartDisplay_listeners(2) [OF v1(5), of 1000] by (auto simp: p2_def)
  have q2: "\<not> pendingUpdate p2"
    using v1(7)
    by (auto simp: p2_def updateCartDisplay_def Let_def case_prod_beta getCart_def console_error_def
        split: sum.splits option.splits)
  have e3: "p3 = p2\<lparr>updateTimeout := False\<rparr>"
    unfolding p3_def by (rule countTimerFired_idle [OF q2])
  have v3: "ls_item p3 = Some (JsonText (Array [scenario_item, zero_quantity_item, full_item]))"
    "\<not> ls_getItem_throws p3" "\<not> ls_setItem_throws p3"
    "cartCache p3 = Some [scenario_item, zero_quantity_item, full_item]"
    "orderList_listeners p3 = 1" "orderList p3 = Some ol"
    using v2 l2 by (simp_all add: e3)
  have c3: "cartCache p3 = None \<or> cartCache p3 = Some [scenario_item, zero_quantity_item, full_item]"
    using v3(4) by simp
  show "ls_item opened_cart_page = Some (JsonText (Array [scenario_item, zero_quantity_item, full_item]))"
    using v3 by (simp add: o updateCartDisplay_frame)
  show "\<not> ls_getItem_throws opened_cart_page"
    using v3 by (simp add: o updateCartDisplay_frame)
  show "\<not> ls_setItem_throws opened_cart_page"
    using v3 by (simp add: o updateCartDisplay_frame)
  show "cartCache opened_cart_page = Some [scenario_item, zero_quantity_item, full_item]"
    using getCart_stored(2) [OF v3(1,2) c3, of 2000] by (simp add: o updateCartDisplay_frame)
  show "orderList_listeners opened_cart_page = 2"
    using updateCartDisplay_listeners(1) [OF v3(6), of 2000] v3(5) by (simp add: o)
qed

text \<open>
  C9. The code departs from the specification. \<^verbatim>\<open>updateCartDisplay\<close> adds a click listener to the
  list at every call, so on the main page, once the cart has been opened, two listeners are on
  the list. On a page with two listeners, a working storage and a cart of size \<open>n\<close> stored,
  one click on the remove button of index \<open>k\<close> with \<open>0 \<le> k\<close> and \<open>k + 1 < n\<close> runs the handler
  twice: the cart that is persisted is the stored cart without its entries at \<open>k\<close> and
  \<open>k + 1\<close>, of size \<open>n - 2\<close>, and not the cart of size \<open>n - 1\<close> that misses only entry \<open>k\<close>.
\<close>

theorem remove_click_runs_twice:
  assumes "target_is_remove_item ev"
    and "parseInt_str (Some 10) (case target_data_index ev of None \<Rightarrow> ''undefined'' | Some d \<Rightarrow> d) = Some k"
    and "ls_item s = Some (JsonText (Array c))"
    and "\<not> ls_getItem_throws s" "\<not> ls_setItem_throws s"
    and "cartCache s = Some c"
    and "orderList_listeners s = 2"
    and "0 \<le> k" "nat k + 1 < length c"
  shows "ls_item (dispatch_click ev clock s) =
           Some (JsonText (Array (take (nat k) c @ drop (nat k + 2) c))) \<and>
         length (take (nat k) c @ drop (nat k + 2) c) = length c - 2 \<and>
         take (nat k) c @ drop (nat k + 2) c \<noteq> take (nat k) c @ drop (nat k + 1) c"
proof -
  obtain t1 t2 t3 where a: "clock 0 = (t1, t2, t3)"
    by (cases "clock 0") auto
  obtain u1 u2 u3 where b: "clock 1 = (u1, u2, u3)"
    by (cases "clock 1") auto
  have d: "dispatch_click ev clock s =
           removeItemHandler ev u1 u2 u3 (removeItemHandler ev t1 t2 t3 s)"
    by (rule dispatch_click_two [OF assms(7) a b])
  have c0: "cartCache s = None \<or> cartCache s = Some c"
    using assms(6) by simp
  have k1: "k < int (length c)" and k2: "k < int (length (splice1 (nat k) c))"
    using assms(8,9) by (auto simp: splice1_def)
  note r1 = removeItemHandler_stored [OF assms(1-5) c0 assms(8) k1, of t1 t2 t3]
  have c1: "cartCache (removeItemHandler ev t1 t2 t3 s) = None \<or>
            cartCache (removeItemHandler ev t1 t2 t3 s) = Some (splice1 (nat k) c)"
    using r1(4) by simp
  note r2 = removeItemHandler_stored(1) [OF assms(1,2) r1(1-3) c1 assms(8) k2, of u1 u2 u3]
  have s: "splice1 (nat k) (splice1 (nat k) c) = take (nat k) c @ drop (nat k + 2) c"
    using assms(9) by (simp add: splice1_twice)
  have l: "length (take (nat k) c @ drop (nat k + 2) c) = length c - 2"
    using assms(9) by auto
  have n: "take (nat k) c @ drop (nat k + 2) c \<noteq> take (nat k) c @ drop (nat k + 1) c"
  proof
    assume "take (nat k) c @ drop (nat k + 2) c = take (nat k) c @ drop (nat k + 1) c"
    then have "length (drop (nat k + 2) c) = length (drop (nat k + 1) c)"
      by simp
    with assms(9) show False by simp
  qed
  from r2 s d l n show ?thesis by simp
qed

text \<open>The theorem for C9 at the failing input: the main page after loading with three
  entries stored and after the cart was opened, the storage working, and one click on the
  remove button of the first entry. The persisted cart holds the third entry only.\<close>

theorem remove_click_runs_twice_witness:
  "target_is_remove_item click_first \<and>
   target_data_index click_first = Some ''0'' \<and>
   ls_item opened_cart_page = Some (JsonText (Array [scenario_item, zero_quantity_item, full_item])) \<and>
   \<not> ls_getItem_throws opened_cart_page \<and>
   \<not> ls_setItem_throws opened_cart_page \<and>
   orderList_listeners opened_cart_page = 2 \<and>
   ls_item (dispatch_click click_first click_clock opened_cart_page) =
     Some (JsonText (Array [full_item]))"
proof -
  have k: "(0::int) \<le> 0" "nat 0 + 1 < length [scenario_item, zero_quantity_item, full_item]"
    by simp_all
  have t: "target_data_index click_first = Some ''0''"
    by (simp add: click_first_def)
  note r = remove_click_runs_twice [OF click_first_index opened_cart_page_facts k, of click_clock]
  from r [THEN conjunct1] t click_first_index(1) opened_cart_page_facts show ?thesis by simp
qed

end
